theory Spec2Isabelle
  imports Complex_Main "HOL-Library.Multiset"
begin

section \<open>Strings and errors\<close>

text \<open>
  Go strings are modelled as \<open>string\<close> (a list of characters), Go's \<open>int\<close> as
  \<open>int\<close>. The code does no arithmetic on its integers; it only passes them on.
\<close>

fun has_prefix :: "string \<Rightarrow> string \<Rightarrow> bool" where
  "has_prefix s [] = True"
| "has_prefix [] (p # ps) = False"
| "has_prefix (c # cs) (p # ps) = (c = p \<and> has_prefix cs ps)"

text \<open>\<open>strings.Contains(s, sub)\<close>.\<close>

fun str_contains :: "string \<Rightarrow> string \<Rightarrow> bool" where
  "str_contains [] sub = (sub = [])"
| "str_contains (c # cs) sub = (has_prefix (c # cs) sub \<or> str_contains cs sub)"

definition digit_char :: "nat \<Rightarrow> char" where
  "digit_char d = char_of (48 + d)"

text \<open>Decimal rendering of a number, as \<open>%d\<close> prints it.\<close>

function nat_dec :: "nat \<Rightarrow> string" where
  "nat_dec n = (if n < 10 then [digit_char n] else nat_dec (n div 10) @ [digit_char (n mod 10)])"
  by pat_completeness auto
termination
  by (relation "measure id") auto

declare nat_dec.simps [simp del]

definition int_dec :: "int \<Rightarrow> string" where
  "int_dec i = (if i < 0 then CHR ''-'' # nat_dec (nat (- i)) else nat_dec (nat i))"

text \<open>
  The error values the code can hold: its own (\<open>errors.New\<close>, \<open>errors.Wrap\<close>), the
  driver's \<open>*mysql.MySQLError\<close> with the server's error number and message,
  \<open>sql.ErrNoRows\<close>, a scan error of \<open>database/sql\<close>, and any other error of the driver
  or the operating system (a lost connection, an unreadable file).
\<close>

datatype err =
    ErrNew string
  | Wrap err string
  | MySQLError nat string
  | ErrNoRows
  | ScanError string
  | OtherError string

text \<open>
  How the driver prints a server error depends on its version, and the repository pins
  none. \<open>go-sql-driver/mysql\<close> up to v1.6.0 prints \<open>Error <number>: <message>\<close>; from
  v1.7.0 on it prints the SQLSTATE as well, \<open>Error <number> (<sqlstate>): <message>\<close>.
\<close>

datatype driver_format = NumberOnly | NumberAndState

text \<open>The SQLSTATE the server sends with each of the error numbers used here.\<close>

definition sqlstate :: "nat \<Rightarrow> string" where
  "sqlstate n =
     (if n = 1050 then ''42S01'' else if n = 1146 then ''42S02''
      else if n = 1054 then ''42S22'' else if n = 1060 then ''42S21''
      else if n = 1062 then ''23000'' else if n = 1091 then ''42000''
      else if n = 1138 then ''22004'' else if n = 1406 then ''22001''
      else if n = 1264 then ''22003'' else ''HY000'')"

text \<open>\<open>err.Error()\<close>. \<open>errors.Wrap(err, msg)\<close> prints \<open>msg: cause\<close>.\<close>

fun error_text :: "driver_format \<Rightarrow> err \<Rightarrow> string" where
  "error_text fmt (ErrNew m) = m"
| "error_text fmt (Wrap e m) = m @ '': '' @ error_text fmt e"
| "error_text fmt (MySQLError n m) =
     (case fmt of
        NumberOnly \<Rightarrow> ''Error '' @ nat_dec n @ '': '' @ m
      | NumberAndState \<Rightarrow> ''Error '' @ nat_dec n @ '' ('' @ sqlstate n @ ''): '' @ m)"
| "error_text fmt ErrNoRows = ''sql: no rows in result set''"
| "error_text fmt (ScanError m) = m"
| "error_text fmt (OtherError m) = m"

section \<open>The constructor\<close>

text \<open>
  The \<open>tlsConfig\<close> struct: the server name and the \<open>*tls.Config\<close> built from the
  files. The contents of the \<open>tls.Config\<close> (certificate pool, key pair, verification
  callback) are opaque here: a type parameter \<open>'c\<close>.
\<close>

record 'c tlsConfig =
  ServerName :: string
  Config :: 'c

text \<open>The \<open>DB\<close> struct before \<open>Open\<close>: no handle yet.\<close>

record 'c DB =
  connURL :: string
  tls_config :: "'c tlsConfig option"

text \<open>
  \<open>newTLSConfig\<close> reads the CA file and the key pair from disk, the only input or
  output of the constructor. What the files hold is outside the program, so the
  loader is a parameter \<open>ld\<close> of the model: it is given the five arguments of
  \<open>newTLSConfig\<close> and answers with an error or with the configuration.
\<close>

type_synonym 'c tls_loader =
  "string \<Rightarrow> string \<Rightarrow> string \<Rightarrow> string \<Rightarrow> string \<Rightarrow> err + 'c tlsConfig"

definition New :: "'c tls_loader \<Rightarrow> string \<Rightarrow> string \<Rightarrow> string \<Rightarrow> string \<Rightarrow> int
    \<Rightarrow> string \<Rightarrow> string \<Rightarrow> string \<Rightarrow> string \<Rightarrow> err + 'c DB" where
  "New ld user pass host dbName port sslKey sslCert sslCA sslServerName =
     (let url = user @ '':'' @ pass @ ''@tcp('' @ host @ '':'' @ int_dec port @ '')/''
                  @ dbName @ ''?parseTime=true''
      in if sslKey \<noteq> [] then
           if sslServerName = [] then
             Inl (ErrNew ''ssl server name required if ssl key is provided'')
           else if sslCert = [] then
             Inl (ErrNew ''client ssl cert is required if ssl key is provided'')
           else if sslCA = [] then
             Inl (ErrNew ''server ca cert is required if ssl key is provided'')
           else
             (case ld dbName sslKey sslCert sslCA sslServerName of
                Inl e \<Rightarrow> Inl (Wrap e ''new tls config'')
              | Inr c \<Rightarrow> Inr \<lparr>connURL = url @ ''&tls='' @ sslServerName, tls_config = Some c\<rparr>)
         else Inr \<lparr>connURL = url, tls_config = None\<rparr>)"

text \<open>A loader that finds every file readable and well formed.\<close>

definition load_ok :: "unit tls_loader" where
  "load_ok dbName keyPath certPath caPath serverName =
     Inr \<lparr>ServerName = serverName, Config = ()\<rparr>"

definition is_config_error :: "err \<Rightarrow> bool" where
  "is_config_error e \<longleftrightarrow>
     e = ErrNew ''ssl server name required if ssl key is provided'' \<or>
     e = ErrNew ''client ssl cert is required if ssl key is provided'' \<or>
     e = ErrNew ''server ca cert is required if ssl key is provided''"

section \<open>The tracking tables\<close>

text \<open>
  The three tables the statements of the code create, alter, read and write, with the
  parts of their shape that the statements depend on:

  \<^item> \<open>metaversion (version INTEGER NOT NULL)\<close>: a list of rows, one integer each.
  \<^item> \<open>meta (filename VARCHAR(255) UNIQUE NOT NULL, md5 VARCHAR(255) NOT NULL,
     content TEXT NOT NULL, createdat DATETIME(6) NOT NULL DEFAULT CURRENT_TIMESTAMP(6))\<close>.
     A legacy table, the one \<open>UpgradeToV1\<close> starts from, has a unique index named
     \<open>md5\<close> and no \<open>content\<close> column; during the upgrade the column exists and is
     nullable.
  \<^item> \<open>metacheckpoints (filename, idx, md5, content, createdat, PRIMARY KEY (filename, idx))\<close>;
     a legacy table may lack the \<open>content\<close> column.

  A table that does not exist is \<open>None\<close>. Rows are kept in insertion order. Strings are
  compared for equality as they are (a binary collation), and one \<open>char\<close> is one
  character of the column.
\<close>

type_synonym timestamp = nat

record meta_row =
  mr_filename :: string
  mr_md5 :: string
  mr_content :: "string option"
  mr_createdat :: timestamp

datatype column_state = NoColumn | Nullable | NotNull

record meta_table =
  md5_index :: bool
  content_col :: column_state
  meta_rows :: "meta_row list"

record checkpoint_row =
  cp_filename :: string
  cp_idx :: int
  cp_md5 :: string
  cp_content :: string
  cp_createdat :: timestamp

record checkpoint_table =
  cp_has_content :: bool
  cp_rows :: "checkpoint_row list"

record database =
  metaversion :: "int list option"
  meta :: "meta_table option"
  metacheckpoints :: "checkpoint_table option"

text \<open>
  What a column can hold. The server runs in its default strict mode, where a value that
  does not fit its column is rejected and the statement fails.
\<close>

definition fits_varchar255 :: "string \<Rightarrow> bool" where
  "fits_varchar255 v \<longleftrightarrow> length v \<le> 255"

definition fits_text :: "string \<Rightarrow> bool" where
  "fits_text v \<longleftrightarrow> length v \<le> 65535"

definition fits_integer :: "int \<Rightarrow> bool" where
  "fits_integer v \<longleftrightarrow> - 2147483648 \<le> v \<and> v \<le> 2147483647"

text \<open>The server's errors, by number.\<close>

definition table_exists_error :: "string \<Rightarrow> err" where
  "table_exists_error t = MySQLError 1050 (''Table '' @ [CHR 0x27] @ t @ [CHR 0x27] @ '' already exists'')"

definition no_such_table :: "string \<Rightarrow> err" where
  "no_such_table t = MySQLError 1146 (''Table '' @ [CHR 0x27] @ t @ [CHR 0x27] @ '' doesn'' @ [CHR 0x27] @ ''t exist'')"

definition unknown_column :: "string \<Rightarrow> err" where
  "unknown_column c = MySQLError 1054 (''Unknown column '' @ [CHR 0x27] @ c @ [CHR 0x27] @ '' in '' @ [CHR 0x27] @ ''field list'' @ [CHR 0x27])"

definition duplicate_column :: "string \<Rightarrow> err" where
  "duplicate_column c = MySQLError 1060 (''Duplicate column name '' @ [CHR 0x27] @ c @ [CHR 0x27])"

definition duplicate_entry :: "string \<Rightarrow> string \<Rightarrow> err" where
  "duplicate_entry v k = MySQLError 1062 (''Duplicate entry '' @ [CHR 0x27] @ v @ [CHR 0x27] @ '' for key '' @ [CHR 0x27] @ k @ [CHR 0x27])"

definition cant_drop_key :: "string \<Rightarrow> err" where
  "cant_drop_key k = MySQLError 1091 (''Can'' @ [CHR 0x27] @ ''t DROP '' @ [CHR 0x27] @ k @ [CHR 0x27] @ ''; check that column/key exists'')"

definition invalid_use_of_null :: err where
  "invalid_use_of_null = MySQLError 1138 ''Invalid use of NULL value''"

definition data_too_long :: "string \<Rightarrow> err" where
  "data_too_long c = MySQLError 1406 (''Data too long for column '' @ [CHR 0x27] @ c @ [CHR 0x27] @ '' at row 1'')"

definition out_of_range :: "string \<Rightarrow> err" where
  "out_of_range c = MySQLError 1264 (''Out of range value for column '' @ [CHR 0x27] @ c @ [CHR 0x27] @ '' at row 1'')"

subsection \<open>The statements on the version table\<close>

text \<open>\<^verbatim>\<open>CREATE TABLE metaversion (version INTEGER NOT NULL)\<close>\<close>

definition sql_create_metaversion :: "database \<Rightarrow> err + database" where
  "sql_create_metaversion d =
     (case metaversion d of
        Some rows \<Rightarrow> Inl (table_exists_error ''metaversion'')
      | None \<Rightarrow> Inr (d\<lparr>metaversion := Some []\<rparr>))"

text \<open>\<^verbatim>\<open>CREATE TABLE IF NOT EXISTS metaversion (version INTEGER NOT NULL)\<close>\<close>

definition sql_create_metaversion_if_not_exists :: "database \<Rightarrow> err + database" where
  "sql_create_metaversion_if_not_exists d =
     (case metaversion d of
        Some rows \<Rightarrow> Inr d
      | None \<Rightarrow> Inr (d\<lparr>metaversion := Some []\<rparr>))"

text \<open>\<^verbatim>\<open>INSERT INTO metaversion (version) VALUES (?)\<close>\<close>

definition sql_insert_version :: "int \<Rightarrow> database \<Rightarrow> err + database" where
  "sql_insert_version v d =
     (case metaversion d of
        None \<Rightarrow> Inl (no_such_table ''metaversion'')
      | Some rows \<Rightarrow>
          if \<not> fits_integer v then Inl (out_of_range ''version'')
          else Inr (d\<lparr>metaversion := Some (rows @ [v])\<rparr>))"

text \<open>\<^verbatim>\<open>DELETE FROM metaversion\<close>\<close>

definition sql_delete_metaversion :: "database \<Rightarrow> err + database" where
  "sql_delete_metaversion d =
     (case metaversion d of
        None \<Rightarrow> Inl (no_such_table ''metaversion'')
      | Some rows \<Rightarrow> Inr (d\<lparr>metaversion := Some []\<rparr>))"

subsection \<open>The statements on the migrations table\<close>

text \<open>\<^verbatim>\<open>CREATE TABLE IF NOT EXISTS meta (filename VARCHAR(255) UNIQUE NOT NULL,
  md5 VARCHAR(255) NOT NULL, content TEXT NOT NULL,
  createdat DATETIME(6) NOT NULL DEFAULT CURRENT_TIMESTAMP(6))\<close>\<close>

definition sql_create_meta_if_not_exists :: "database \<Rightarrow> err + database" where
  "sql_create_meta_if_not_exists d =
     (case meta d of
        Some t \<Rightarrow> Inr d
      | None \<Rightarrow> Inr (d\<lparr>meta := Some \<lparr>md5_index = False, content_col = NotNull, meta_rows = []\<rparr>\<rparr>))"

text \<open>
  The checks every insert into \<open>meta (filename, content, md5)\<close> makes before it looks at
  the keys: the table, the \<open>content\<close> column, and that each value fits its column.
\<close>

definition meta_insert_check :: "string \<Rightarrow> string \<Rightarrow> string \<Rightarrow> database \<Rightarrow> err + meta_table" where
  "meta_insert_check f c m d =
     (case meta d of
        None \<Rightarrow> Inl (no_such_table ''meta'')
      | Some t \<Rightarrow>
          if content_col t = NoColumn then Inl (unknown_column ''content'')
          else if \<not> fits_varchar255 f then Inl (data_too_long ''filename'')
          else if \<not> fits_text c then Inl (data_too_long ''content'')
          else if \<not> fits_varchar255 m then Inl (data_too_long ''md5'')
          else Inr t)"

definition new_meta_row :: "timestamp \<Rightarrow> string \<Rightarrow> string \<Rightarrow> string \<Rightarrow> meta_row" where
  "new_meta_row ts f c m = \<lparr>mr_filename = f, mr_md5 = m, mr_content = Some c, mr_createdat = ts\<rparr>"

text \<open>
  \<^verbatim>\<open>INSERT INTO meta (filename, content, md5) VALUES (?, ?, ?)\<close>, at time \<open>ts\<close>: a row with
  the same filename, or with the same md5 while the legacy index is there, is a duplicate
  entry.
\<close>

definition sql_insert_meta :: "timestamp \<Rightarrow> string \<Rightarrow> string \<Rightarrow> string \<Rightarrow> database \<Rightarrow> err + database" where
  "sql_insert_meta ts f c m d =
     (case meta_insert_check f c m d of
        Inl e \<Rightarrow> Inl e
      | Inr t \<Rightarrow>
          if f \<in> set (map mr_filename (meta_rows t)) then Inl (duplicate_entry f ''filename'')
          else if md5_index t \<and> m \<in> set (map mr_md5 (meta_rows t)) then Inl (duplicate_entry m ''md5'')
          else Inr (d\<lparr>meta := Some (t\<lparr>meta_rows := meta_rows t @ [new_meta_row ts f c m]\<rparr>)\<rparr>))"

text \<open>
  \<^verbatim>\<open>INSERT INTO meta (filename, content, md5) VALUES (?, ?, ?)
  ON DUPLICATE KEY UPDATE md5=?, content=?\<close>
  with its five arguments in the order of the placeholders: \<open>f c m\<close> for the new row,
  \<open>um uc\<close> for the update. The row that collides on the filename is updated in place.
  While the legacy index on md5 is there, a collision on md5 alone updates the row that
  holds that md5, and an update that would give two rows the same md5 is a duplicate
  entry.
\<close>

definition sql_upsert_meta ::
    "timestamp \<Rightarrow> string \<Rightarrow> string \<Rightarrow> string \<Rightarrow> string \<Rightarrow> string \<Rightarrow> database \<Rightarrow> err + database" where
  "sql_upsert_meta ts f c m um uc d =
     (case meta_insert_check f c m d of
        Inl e \<Rightarrow> Inl e
      | Inr t \<Rightarrow>
          let hit = (\<lambda>r. if f \<in> set (map mr_filename (meta_rows t)) then mr_filename r = f
                         else md5_index t \<and> mr_md5 r = m)
          in if \<not> list_ex hit (meta_rows t) then
               Inr (d\<lparr>meta := Some (t\<lparr>meta_rows := meta_rows t @ [new_meta_row ts f c m]\<rparr>)\<rparr>)
             else if \<not> fits_varchar255 um then Inl (data_too_long ''md5'')
             else if \<not> fits_text uc then Inl (data_too_long ''content'')
             else if md5_index t \<and> um \<in> set (map mr_md5 (filter (\<lambda>r. \<not> hit r) (meta_rows t)))
             then Inl (duplicate_entry um ''md5'')
             else Inr (d\<lparr>meta := Some (t\<lparr>meta_rows :=
                    map (\<lambda>r. if hit r then r\<lparr>mr_md5 := um, mr_content := Some uc\<rparr> else r)
                      (meta_rows t)\<rparr>)\<rparr>))"

text \<open>\<^verbatim>\<open>ALTER TABLE meta DROP INDEX md5\<close>\<close>

definition sql_drop_md5_index :: "database \<Rightarrow> err + database" where
  "sql_drop_md5_index d =
     (case meta d of
        None \<Rightarrow> Inl (no_such_table ''meta'')
      | Some t \<Rightarrow>
          if \<not> md5_index t then Inl (cant_drop_key ''md5'')
          else Inr (d\<lparr>meta := Some (t\<lparr>md5_index := False\<rparr>)\<rparr>))"

text \<open>\<^verbatim>\<open>ALTER TABLE meta ADD COLUMN content TEXT\<close>: every row gets NULL.\<close>

definition sql_add_content_column :: "database \<Rightarrow> err + database" where
  "sql_add_content_column d =
     (case meta d of
        None \<Rightarrow> Inl (no_such_table ''meta'')
      | Some t \<Rightarrow>
          if content_col t \<noteq> NoColumn then Inl (duplicate_column ''content'')
          else Inr (d\<lparr>meta := Some (t\<lparr>content_col := Nullable,
                        meta_rows := map (\<lambda>r. r\<lparr>mr_content := None\<rparr>) (meta_rows t)\<rparr>)\<rparr>))"

text \<open>\<^verbatim>\<open>UPDATE meta SET content=? WHERE filename=?\<close>, with the arguments \<open>content, filename\<close>.\<close>

definition sql_update_meta_content :: "string \<Rightarrow> string \<Rightarrow> database \<Rightarrow> err + database" where
  "sql_update_meta_content c f d =
     (case meta d of
        None \<Rightarrow> Inl (no_such_table ''meta'')
      | Some t \<Rightarrow>
          if content_col t = NoColumn then Inl (unknown_column ''content'')
          else if f \<in> set (map mr_filename (meta_rows t)) \<and> \<not> fits_text c
          then Inl (data_too_long ''content'')
          else Inr (d\<lparr>meta := Some (t\<lparr>meta_rows :=
                   map (\<lambda>r. if mr_filename r = f then r\<lparr>mr_content := Some c\<rparr> else r) (meta_rows t)\<rparr>)\<rparr>))"

text \<open>
  \<^verbatim>\<open>ALTER TABLE meta MODIFY COLUMN content TEXT NOT NULL\<close>: refused while a row holds
  NULL.
\<close>

definition sql_modify_content_not_null :: "database \<Rightarrow> err + database" where
  "sql_modify_content_not_null d =
     (case meta d of
        None \<Rightarrow> Inl (no_such_table ''meta'')
      | Some t \<Rightarrow>
          if content_col t = NoColumn then Inl (unknown_column ''content'')
          else if None \<in> set (map mr_content (meta_rows t)) then Inl invalid_use_of_null
          else Inr (d\<lparr>meta := Some (t\<lparr>content_col := NotNull\<rparr>)\<rparr>))"

subsection \<open>The statements on the checkpoints table\<close>

text \<open>\<^verbatim>\<open>CREATE TABLE IF NOT EXISTS metacheckpoints (filename VARCHAR(255) NOT NULL,
  idx INTEGER NOT NULL, md5 VARCHAR(255) NOT NULL, content TEXT NOT NULL,
  createdat DATETIME(6) NOT NULL DEFAULT CURRENT_TIMESTAMP(6), PRIMARY KEY (filename, idx))\<close>\<close>

definition sql_create_metacheckpoints_if_not_exists :: "database \<Rightarrow> err + database" where
  "sql_create_metacheckpoints_if_not_exists d =
     (case metacheckpoints d of
        Some t \<Rightarrow> Inr d
      | None \<Rightarrow> Inr (d\<lparr>metacheckpoints := Some \<lparr>cp_has_content = True, cp_rows = []\<rparr>\<rparr>))"

text \<open>
  \<^verbatim>\<open>INSERT INTO metacheckpoints (filename, content, idx, md5) VALUES (?, ?, ?, ?)\<close>, at time
  \<open>ts\<close>: a row with the same filename and idx is a duplicate entry for the primary key.
\<close>

definition sql_insert_checkpoint ::
    "timestamp \<Rightarrow> string \<Rightarrow> string \<Rightarrow> int \<Rightarrow> string \<Rightarrow> database \<Rightarrow> err + database" where
  "sql_insert_checkpoint ts f c i m d =
     (case metacheckpoints d of
        None \<Rightarrow> Inl (no_such_table ''metacheckpoints'')
      | Some t \<Rightarrow>
          if \<not> cp_has_content t then Inl (unknown_column ''content'')
          else if \<not> fits_varchar255 f then Inl (data_too_long ''filename'')
          else if \<not> fits_text c then Inl (data_too_long ''content'')
          else if \<not> fits_integer i then Inl (out_of_range ''idx'')
          else if \<not> fits_varchar255 m then Inl (data_too_long ''md5'')
          else if (f, i) \<in> set (map (\<lambda>r. (cp_filename r, cp_idx r)) (cp_rows t))
          then Inl (duplicate_entry (f @ ''-'' @ int_dec i) ''PRIMARY'')
          else Inr (d\<lparr>metacheckpoints := Some (t\<lparr>cp_rows := cp_rows t @
                   [\<lparr>cp_filename = f, cp_idx = i, cp_md5 = m, cp_content = c, cp_createdat = ts\<rparr>]\<rparr>)\<rparr>))"

text \<open>\<^verbatim>\<open>DELETE FROM metacheckpoints\<close>\<close>

definition sql_delete_checkpoints :: "database \<Rightarrow> err + database" where
  "sql_delete_checkpoints d =
     (case metacheckpoints d of
        None \<Rightarrow> Inl (no_such_table ''metacheckpoints'')
      | Some t \<Rightarrow> Inr (d\<lparr>metacheckpoints := Some (t\<lparr>cp_rows := []\<rparr>)\<rparr>))"

text \<open>
  \<^verbatim>\<open>ALTER TABLE metacheckpoints ADD COLUMN content TEXT NOT NULL\<close>: every row gets the
  empty string.
\<close>

definition sql_add_checkpoints_content :: "database \<Rightarrow> err + database" where
  "sql_add_checkpoints_content d =
     (case metacheckpoints d of
        None \<Rightarrow> Inl (no_such_table ''metacheckpoints'')
      | Some t \<Rightarrow>
          if cp_has_content t then Inl (duplicate_column ''content'')
          else Inr (d\<lparr>metacheckpoints := Some (t\<lparr>cp_has_content := True,
                        cp_rows := map (\<lambda>r. r\<lparr>cp_content := []\<rparr>) (cp_rows t)\<rparr>)\<rparr>))"

section \<open>The connection\<close>

text \<open>
  One connection to the server: the database as the connection sees it, the state to
  return to on \<open>ROLLBACK\<close> while a transaction is open, and the server's clock (the
  value \<open>CURRENT_TIMESTAMP(6)\<close> gives a new row).

  \<open>faults\<close> is the list of failures that come from outside the tables (a lost
  connection, a lock timeout, a full disk), one entry for each call to the server in the
  order the calls are made: \<open>Some msg\<close> makes that call return an error with the text
  \<open>msg\<close> and no effect, \<open>None\<close> lets it run. Past the end of the list every call runs.

  \<open>driver\<close> is the form in which the driver the program was built with prints a
  server error.
\<close>

record session =
  db :: database
  rollback_to :: "database option"
  now :: timestamp
  faults :: "string option list"
  driver :: driver_format

definition next_fault :: "session \<Rightarrow> err option \<times> session" where
  "next_fault s =
     (case faults s of
        [] \<Rightarrow> (None, s)
      | f # fs \<Rightarrow> (map_option OtherError f, s\<lparr>faults := fs\<rparr>))"

text \<open>
  \<open>Exec\<close> of a statement that writes rows. A statement that fails changes nothing; an
  open transaction stays open.
\<close>

definition exec_dml :: "(database \<Rightarrow> err + database) \<Rightarrow> session \<Rightarrow> err option \<times> session" where
  "exec_dml q s =
     (case next_fault s of
        (Some e, s1) \<Rightarrow> (Some e, s1)
      | (None, s1) \<Rightarrow>
          (case q (db s1) of
             Inl e \<Rightarrow> (Some e, s1)
           | Inr d \<Rightarrow> (None, s1\<lparr>db := d\<rparr>)))"

text \<open>
  \<open>Exec\<close> of a data-definition statement (\<open>CREATE TABLE\<close>, \<open>ALTER TABLE\<close>). The server
  commits the open transaction before it runs such a statement (an implicit commit), and
  the statement's own effect is permanent at once: afterwards no transaction is open and
  there is nothing to roll back to.
\<close>

definition exec_ddl :: "(database \<Rightarrow> err + database) \<Rightarrow> session \<Rightarrow> err option \<times> session" where
  "exec_ddl q s =
     (case next_fault s of
        (Some e, s1) \<Rightarrow> (Some e, s1)
      | (None, s1) \<Rightarrow>
          (case q (db s1) of
             Inl e \<Rightarrow> (Some e, s1\<lparr>rollback_to := None\<rparr>)
           | Inr d \<Rightarrow> (None, s1\<lparr>db := d, rollback_to := None\<rparr>)))"

text \<open>\<open>db.Beginx()\<close>: \<open>START TRANSACTION\<close>.\<close>

definition Beginx :: "session \<Rightarrow> err option \<times> session" where
  "Beginx s =
     (case next_fault s of
        (Some e, s1) \<Rightarrow> (Some e, s1)
      | (None, s1) \<Rightarrow> (None, s1\<lparr>rollback_to := Some (db s1)\<rparr>))"

text \<open>\<open>tx.Commit()\<close>.\<close>

definition Commit :: "session \<Rightarrow> err option \<times> session" where
  "Commit s =
     (case next_fault s of
        (Some e, s1) \<Rightarrow> (Some e, s1)
      | (None, s1) \<Rightarrow> (None, s1\<lparr>rollback_to := None\<rparr>))"

text \<open>\<open>tx.Rollback()\<close>: with no transaction open there is nothing to undo.\<close>

definition Rollback :: "session \<Rightarrow> err option \<times> session" where
  "Rollback s =
     (case next_fault s of
        (Some e, s1) \<Rightarrow> (Some e, s1)
      | (None, s1) \<Rightarrow>
          (case rollback_to s1 of
             None \<Rightarrow> (None, s1)
           | Some d \<Rightarrow> (None, s1\<lparr>db := d, rollback_to := None\<rparr>)))"

subsection \<open>Queries\<close>

text \<open>
  \<open>db.Get(&version, "SELECT version FROM metaversion")\<close>: the first row, or
  \<open>sql.ErrNoRows\<close>.
\<close>

definition get_version :: "session \<Rightarrow> (err + int) \<times> session" where
  "get_version s =
     (case next_fault s of
        (Some e, s1) \<Rightarrow> (Inl e, s1)
      | (None, s1) \<Rightarrow>
          (case metaversion (db s1) of
             None \<Rightarrow> (Inl (no_such_table ''metaversion''), s1)
           | Some [] \<Rightarrow> (Inl ErrNoRows, s1)
           | Some (v # vs) \<Rightarrow> (Inr v, s1)))"

text \<open>
  \<open>db.Select(&checkpoints, "SELECT md5 FROM metacheckpoints WHERE filename=? ORDER BY idx", filename)\<close>.
\<close>

definition select_checkpoints :: "string \<Rightarrow> session \<Rightarrow> (err + string list) \<times> session" where
  "select_checkpoints f s =
     (case next_fault s of
        (Some e, s1) \<Rightarrow> (Inl e, s1)
      | (None, s1) \<Rightarrow>
          (case metacheckpoints (db s1) of
             None \<Rightarrow> (Inl (no_such_table ''metacheckpoints''), s1)
           | Some t \<Rightarrow>
               (Inr (map cp_md5 (sort_key cp_idx (filter (\<lambda>r. cp_filename r = f) (cp_rows t)))), s1)))"

text \<open>The \<open>migrate.Migration\<close> struct.\<close>

record Migration =
  Filename :: string
  Content :: string
  Checksum :: string

text \<open>
  The value of \<open>filename * 1\<close>. In a numeric context the server reads the longest
  leading part of the string that is a number: blanks, a sign, digits, a fraction, an
  exponent; what follows is ignored, and a string with no such part counts as 0.
  \<open>leading_number\<close> is that number, exactly.
\<close>

definition is_digit :: "char \<Rightarrow> bool" where
  "is_digit c \<longleftrightarrow> (48::nat) \<le> of_char c \<and> of_char c \<le> (57::nat)"

definition is_blank :: "char \<Rightarrow> bool" where
  "is_blank c \<longleftrightarrow> of_char c = (32::nat) \<or> of_char c = (9::nat)"

definition digits_value :: "string \<Rightarrow> nat" where
  "digits_value ds = foldl (\<lambda>a c. 10 * a + (of_char c - 48)) 0 ds"

text \<open>A leading sign: whether it is a minus, and the rest.\<close>

fun take_sign :: "string \<Rightarrow> bool \<times> string" where
  "take_sign [] = (False, [])"
| "take_sign (c # cs) =
     (if c = CHR ''-'' then (True, cs) else if c = CHR ''+'' then (False, cs) else (False, c # cs))"

text \<open>A fraction: the digits after a leading point, and the rest.\<close>

fun take_fraction :: "string \<Rightarrow> string \<times> string" where
  "take_fraction [] = ([], [])"
| "take_fraction (c # cs) =
     (if c = CHR ''.'' then (takeWhile is_digit cs, dropWhile is_digit cs) else ([], c # cs))"

text \<open>An exponent: \<open>e\<close> or \<open>E\<close>, a sign, at least one digit; otherwise 0.\<close>

fun take_exponent :: "string \<Rightarrow> int" where
  "take_exponent [] = 0"
| "take_exponent (c # cs) =
     (if c = CHR ''e'' \<or> c = CHR ''E'' then
        (case take_sign cs of
           (neg, ds) \<Rightarrow>
             let n = int (digits_value (takeWhile is_digit ds))
             in if neg then - n else n)
      else 0)"

definition leading_number :: "string \<Rightarrow> rat" where
  "leading_number s =
     (case take_sign (dropWhile is_blank s) of
        (neg, s1) \<Rightarrow>
          (case take_fraction (dropWhile is_digit s1) of
             (fdigits, s2) \<Rightarrow>
               let whole = takeWhile is_digit s1;
                   mant = of_nat (digits_value (whole @ fdigits)) / 10 ^ length fdigits;
                   ex = take_exponent s2;
                   v = (if whole = [] \<and> fdigits = [] then 0
                        else if 0 \<le> ex then mant * 10 ^ nat ex else mant / 10 ^ nat (- ex))
               in if neg then - v else v))"




section \<open>The store\<close>

text \<open>
  The methods of \<open>*DB\<close>, each a function from the connection before the call to the
  result and the connection after it. A Go \<open>error\<close> result is \<open>err option\<close>, with
  \<open>None\<close> for \<open>nil\<close>; a result \<open>(value, error)\<close> is \<open>err + value\<close>.
\<close>

text \<open>
  \<open>CreateMetaVersionIfNotExists\<close> from the \<open>SELECT\<close> on, with \<open>created\<close> as the first
  statement left it.
\<close>

definition read_or_seed_version :: "bool \<Rightarrow> int \<Rightarrow> session \<Rightarrow> (err + int) \<times> session" where
  "read_or_seed_version created schemaVersion s =
     (case get_version s of
        (Inl e, s1) \<Rightarrow>
          if e = ErrNoRows then
            let seed = (if \<not> created then 0 else schemaVersion)
            in (case exec_dml (sql_insert_version seed) s1 of
                  (Some e2, s2) \<Rightarrow> (Inl (Wrap e2 ''insert version''), s2)
                | (None, s2) \<Rightarrow> (Inr seed, s2))
          else (Inl (Wrap e ''get version''), s1)
      | (Inr version, s1) \<Rightarrow> (Inr version, s1))"

definition CreateMetaVersionIfNotExists :: "int \<Rightarrow> session \<Rightarrow> (err + int) \<times> session" where
  "CreateMetaVersionIfNotExists schemaVersion s =
     (case exec_ddl sql_create_metaversion s of
        (Some e, s1) \<Rightarrow>
          if \<not> str_contains (error_text (driver s1) e) ''Error 1050:''
          then (Inl (Wrap e ''create metaversion table''), s1)
          else read_or_seed_version False schemaVersion s1
      | (None, s1) \<Rightarrow> read_or_seed_version True schemaVersion s1)"

definition CreateMetaIfNotExists :: "session \<Rightarrow> err option \<times> session" where
  "CreateMetaIfNotExists s =
     (case exec_ddl sql_create_meta_if_not_exists s of
        (Some e, s1) \<Rightarrow> (Some (Wrap e ''create meta table''), s1)
      | (None, s1) \<Rightarrow> (None, s1))"

definition CreateMetaCheckpointsIfNotExists :: "session \<Rightarrow> err option \<times> session" where
  "CreateMetaCheckpointsIfNotExists s =
     (case exec_ddl sql_create_metacheckpoints_if_not_exists s of
        (Some e, s1) \<Rightarrow> (Some (Wrap e ''create metacheckpoints table''), s1)
      | (None, s1) \<Rightarrow> (None, s1))"


definition GetMetaCheckpoints :: "string \<Rightarrow> session \<Rightarrow> (err + string list) \<times> session" where
  "GetMetaCheckpoints filename s = select_checkpoints filename s"

definition UpsertMigration :: "string \<Rightarrow> string \<Rightarrow> string \<Rightarrow> session \<Rightarrow> err option \<times> session" where
  "UpsertMigration filename content checksum s =
     exec_dml (sql_upsert_meta (now s) filename content checksum checksum content) s"

definition InsertMetaCheckpoint ::
    "string \<Rightarrow> string \<Rightarrow> string \<Rightarrow> int \<Rightarrow> session \<Rightarrow> err option \<times> session" where
  "InsertMetaCheckpoint filename content checksum idx s =
     exec_dml (sql_insert_checkpoint (now s) filename content idx checksum) s"

definition InsertMigration :: "string \<Rightarrow> string \<Rightarrow> string \<Rightarrow> session \<Rightarrow> err option \<times> session" where
  "InsertMigration filename content checksum s =
     exec_dml (sql_insert_meta (now s) filename content checksum) s"

definition DeleteMetaCheckpoints :: "session \<Rightarrow> err option \<times> session" where
  "DeleteMetaCheckpoints s = exec_dml sql_delete_checkpoints s"

subsection \<open>The upgrade\<close>

text \<open>The loop over the supplied migrations: it stops at the first statement that fails.\<close>

fun backfill :: "Migration list \<Rightarrow> session \<Rightarrow> err option \<times> session" where
  "backfill [] s = (None, s)"
| "backfill (m # ms) s =
     (case exec_dml (sql_update_meta_content (Content m) (Filename m)) s of
        (Some e, s1) \<Rightarrow> (Some (Wrap e ''update meta content''), s1)
      | (None, s1) \<Rightarrow> backfill ms s1)"

text \<open>
  The body of \<open>UpgradeToV1\<close> between \<open>Beginx\<close> and the deferred function: the value of
  \<open>err\<close> at the \<open>return\<close>.
\<close>

definition upgrade_steps :: "Migration list \<Rightarrow> session \<Rightarrow> err option \<times> session" where
  "upgrade_steps migrations s =
     (case exec_ddl sql_drop_md5_index s of
        (Some e, s1) \<Rightarrow> (Some (Wrap e ''remove md5 unique''), s1)
      | (None, s1) \<Rightarrow>
     (case exec_ddl sql_add_content_column s1 of
        (Some e, s2) \<Rightarrow> (Some (Wrap e ''add content column''), s2)
      | (None, s2) \<Rightarrow>
     (case backfill migrations s2 of
        (Some e, s3) \<Rightarrow> (Some e, s3)
      | (None, s3) \<Rightarrow>
     (case exec_ddl sql_modify_content_not_null s3 of
        (Some e, s4) \<Rightarrow> (Some (Wrap e ''update meta content not null''), s4)
      | (None, s4) \<Rightarrow>
     (case exec_ddl sql_add_checkpoints_content s4 of
        (r5, s5) \<Rightarrow>
          (case (case r5 of
                   Some e \<Rightarrow>
                     if \<not> str_contains (error_text (driver s5) e) ''Duplicate column name''
                     then Some (Wrap e ''add metacheckpoints content'') else None
                 | None \<Rightarrow> None) of
             Some e \<Rightarrow> (Some e, s5)
           | None \<Rightarrow>
     (case exec_ddl sql_create_metaversion_if_not_exists s5 of
        (Some e, s6) \<Rightarrow> (Some (Wrap e ''create metaversion table''), s6)
      | (None, s6) \<Rightarrow>
     (case exec_dml sql_delete_metaversion s6 of
        (Some e, s7) \<Rightarrow> (Some (Wrap e ''delete metaversion''), s7)
      | (None, s7) \<Rightarrow>
     (case exec_dml (sql_insert_version 1) s7 of
        (Some e, s8) \<Rightarrow> (Some (Wrap e ''insert metaversion''), s8)
      | (None, s8) \<Rightarrow> (None, s8))))))))))"

text \<open>
  \<open>UpgradeToV1\<close>: begin, the steps, then the deferred function, which rolls back when
  \<open>err\<close> is set (dropping the error of \<open>Rollback\<close>) and otherwise returns what
  \<open>Commit\<close> returns.
\<close>

definition UpgradeToV1 :: "Migration list \<Rightarrow> session \<Rightarrow> err option \<times> session" where
  "UpgradeToV1 migrations s =
     (case Beginx s of
        (Some e, s0) \<Rightarrow> (Some (Wrap e ''begin tx''), s0)
      | (None, s0) \<Rightarrow>
          (case upgrade_steps migrations s0 of
             (Some e, s1) \<Rightarrow> (case Rollback s1 of (r, s2) \<Rightarrow> (Some e, s2))
           | (None, s1) \<Rightarrow> Commit s1))"

section \<open>Invariants and example databases\<close>

text \<open>The version table, if it exists, has at most one row.\<close>

definition at_most_one_row :: "database \<Rightarrow> bool" where
  "at_most_one_row d \<longleftrightarrow> (case metaversion d of None \<Rightarrow> True | Some rows \<Rightarrow> length rows \<le> 1)"

text \<open>
  A database with none of the three tables, and a connection to a database with no
  transaction open and no failure to come: \<open>connect\<close> through a driver that prints
  the SQLSTATE (v1.7.0 or later), \<open>connect_legacy\<close> through one that does not.
\<close>

definition no_tables :: database where
  "no_tables = \<lparr>metaversion = None, meta = None, metacheckpoints = None\<rparr>"

definition connect :: "database \<Rightarrow> session" where
  "connect d = \<lparr>db = d, rollback_to = None, now = 0, faults = [], driver = NumberAndState\<rparr>"

definition connect_legacy :: "database \<Rightarrow> session" where
  "connect_legacy d = \<lparr>db = d, rollback_to = None, now = 0, faults = [], driver = NumberOnly\<rparr>"

text \<open>
  What a caller checks to tell "already applied" from any other failure: the driver's
  error with the server's number 1062 (duplicate entry).
\<close>

fun is_duplicate_entry :: "err \<Rightarrow> bool" where
  "is_duplicate_entry (MySQLError n m) = (n = 1062)"
| "is_duplicate_entry e = False"

text \<open>
  A legacy database at the moment the upgrade is called: the migrations table in its
  old shape with two applied migrations, the checkpoints table already created in its
  new shape and empty, the version table seeded with 0.
\<close>

definition legacy_meta :: meta_table where
  "legacy_meta =
     \<lparr>md5_index = True, content_col = NoColumn,
      meta_rows =
        [\<lparr>mr_filename = ''1_init.sql'', mr_md5 = ''c4ca'', mr_content = None, mr_createdat = 1\<rparr>,
         \<lparr>mr_filename = ''2_users.sql'', mr_md5 = ''c81e'', mr_content = None, mr_createdat = 2\<rparr>]\<rparr>"

definition legacy_db :: database where
  "legacy_db =
     \<lparr>metaversion = Some [0], meta = Some legacy_meta,
      metacheckpoints = Some \<lparr>cp_has_content = True, cp_rows = []\<rparr>\<rparr>"

text \<open>The two migration files, as the caller reads them from disk.\<close>

definition init_sql :: Migration where
  "init_sql = \<lparr>Filename = ''1_init.sql'', Content = ''CREATE TABLE a (id INT)'', Checksum = ''c4ca''\<rparr>"

definition users_sql :: Migration where
  "users_sql = \<lparr>Filename = ''2_users.sql'', Content = ''CREATE TABLE u (id INT)'', Checksum = ''c81e''\<rparr>"

text \<open>
  A database in the current shape, as the three \<open>Create...IfNotExists\<close> methods make it,
  with two applied migrations (recorded in the order 10, 9) and one checkpoint for each.
\<close>

definition applied_meta :: meta_table where
  "applied_meta =
     \<lparr>md5_index = False, content_col = NotNull,
      meta_rows =
        [\<lparr>mr_filename = ''10_y.sql'', mr_md5 = ''d3d9'',
           mr_content = Some ''CREATE TABLE y (id INT)'', mr_createdat = 1\<rparr>,
         \<lparr>mr_filename = ''9_x.sql'', mr_md5 = ''45c4'',
           mr_content = Some ''CREATE TABLE x (id INT)'', mr_createdat = 2\<rparr>]\<rparr>"

definition applied_checkpoints :: checkpoint_table where
  "applied_checkpoints =
     \<lparr>cp_has_content = True,
      cp_rows =
        [\<lparr>cp_filename = ''10_y.sql'', cp_idx = 0, cp_md5 = ''d3d9'',
           cp_content = ''CREATE TABLE y (id INT)'', cp_createdat = 1\<rparr>,
         \<lparr>cp_filename = ''9_x.sql'', cp_idx = 0, cp_md5 = ''45c4'',
           cp_content = ''CREATE TABLE x (id INT)'', cp_createdat = 2\<rparr>]\<rparr>"

definition applied_db :: database where
  "applied_db =
     \<lparr>metaversion = Some [1], meta = Some applied_meta,
      metacheckpoints = Some applied_checkpoints\<rparr>"

text \<open>What \<open>ON DUPLICATE KEY UPDATE md5=?, content=?\<close> does to one row, for the row named \<open>f\<close>.\<close>

definition overwrite :: "string \<Rightarrow> string \<Rightarrow> string \<Rightarrow> meta_row \<Rightarrow> meta_row" where
  "overwrite f c m r = (if mr_filename r = f then r\<lparr>mr_md5 := m, mr_content := Some c\<rparr> else r)"

text \<open>
  The state of a connection once the first statement of the upgrade has run: the legacy
  index on md5 is gone, and no transaction is open.
\<close>

definition index_dropped :: "database \<Rightarrow> bool" where
  "index_dropped d \<longleftrightarrow> (case meta d of None \<Rightarrow> False | Some t \<Rightarrow> \<not> md5_index t)"

definition settled :: "session \<Rightarrow> bool" where
  "settled s \<longleftrightarrow> rollback_to s = None \<and> index_dropped (db s)"

subsection \<open>The sequence number of a filename\<close>

text \<open>
  The specification's reading of a filename, written without reference to the server: the
  sequence number is the number that the leading decimal digits spell (0 when the name
  starts with no digit). A name is plain when the server's reading can find nothing else
  in front: it does not start with a blank or a sign, and what follows the leading
  digits is not a decimal point or an exponent mark.
\<close>

definition digit_of :: "char \<Rightarrow> nat option" where
  "digit_of c = map_of (zip ''0123456789'' [0, 1, 2, 3, 4, 5, 6, 7, 8, 9]) c"

fun sequence_from :: "nat \<Rightarrow> string \<Rightarrow> nat" where
  "sequence_from a [] = a"
| "sequence_from a (c # cs) =
     (case digit_of c of Some d \<Rightarrow> sequence_from (10 * a + d) cs | None \<Rightarrow> a)"

definition sequence_number :: "string \<Rightarrow> nat" where
  "sequence_number f = sequence_from 0 f"



section \<open>Properties of the constructor\<close>

text \<open>
  C2, as stated: whenever one of client key, client certificate, CA certificate and
  server name is supplied and another is missing, \<open>New\<close> fails. It does not: with a
  client certificate and nothing else, \<open>New\<close> returns a handle without a TLS
  configuration and no error. The checks are all under \<open>if sslKey != ""\<close>.
\<close>

theorem New_accepts_cert_without_key:
  "New load_ok ''u'' ''p'' ''h'' ''d'' 3306 [] ''client-cert.pem'' [] [] =
     Inr \<lparr>connURL = ''u:p@tcp(h:'' @ int_dec 3306 @ '')/d?parseTime=true'', tls_config = None\<rparr>"
  by (simp add: New_def)

lemma New_without_key:
  "New ld user pass host dbName port [] sslCert sslCA sslServerName =
     Inr \<lparr>connURL = user @ '':'' @ pass @ ''@tcp('' @ host @ '':'' @ int_dec port @ '')/''
                  @ dbName @ ''?parseTime=true'', tls_config = None\<rparr>"
  by (simp add: New_def)

lemma New_no_server_name:
  "sslKey \<noteq> [] \<Longrightarrow>
   New ld user pass host dbName port sslKey sslCert sslCA [] =
     Inl (ErrNew ''ssl server name required if ssl key is provided'')"
  by (simp add: New_def)

lemma New_no_cert:
  "sslKey \<noteq> [] \<Longrightarrow> sslServerName \<noteq> [] \<Longrightarrow>
   New ld user pass host dbName port sslKey [] sslCA sslServerName =
     Inl (ErrNew ''client ssl cert is required if ssl key is provided'')"
  by (simp add: New_def)

lemma New_no_ca:
  "sslKey \<noteq> [] \<Longrightarrow> sslServerName \<noteq> [] \<Longrightarrow> sslCert \<noteq> [] \<Longrightarrow>
   New ld user pass host dbName port sslKey sslCert [] sslServerName =
     Inl (ErrNew ''server ca cert is required if ssl key is provided'')"
  by (simp add: New_def)

lemma New_missing_field:
  assumes "sslKey \<noteq> []" and "sslCert = [] \<or> sslCA = [] \<or> sslServerName = []"
  shows "\<exists>e. is_config_error e \<and>
        (\<forall>ld :: 'c tls_loader.
           New ld user pass host dbName port sslKey sslCert sslCA sslServerName = Inl e)"
proof (cases "sslServerName = []")
  case True
  have "is_config_error (ErrNew ''ssl server name required if ssl key is provided'')"
    unfolding is_config_error_def by (rule disjI1) (rule refl)
  with True assms(1) show ?thesis using New_no_server_name by blast
next
  case n1: False
  show ?thesis
  proof (cases "sslCert = []")
    case True
    have "is_config_error (ErrNew ''client ssl cert is required if ssl key is provided'')"
      unfolding is_config_error_def by (rule disjI2, rule disjI1) (rule refl)
    with True n1 assms(1) show ?thesis using New_no_cert by blast
  next
    case n2: False
    with n1 assms(2) have c: "sslCA = []" by simp
    have "is_config_error (ErrNew ''server ca cert is required if ssl key is provided'')"
      unfolding is_config_error_def by (rule disjI2, rule disjI2) (rule refl)
    with c n1 n2 assms(1) show ?thesis using New_no_ca by blast
  qed
qed

lemma New_tls_built:
  assumes "New ld user pass host dbName port sslKey sslCert sslCA sslServerName = Inr d"
    and "tls_config d \<noteq> None"
  shows "sslKey \<noteq> [] \<and> sslCert \<noteq> [] \<and> sslCA \<noteq> [] \<and> sslServerName \<noteq> []"
proof -
  have k: "sslKey \<noteq> []"
  proof
    assume "sslKey = []"
    with assms(1) have "tls_config d = None" by (auto simp: New_without_key)
    with assms(2) show False by simp
  qed
  from k assms(1) show ?thesis
    by (simp only: New_def Let_def if_True if_False split: if_splits) simp_all
qed

text \<open>
  C2, amended: if the client key is supplied and the client certificate, the CA
  certificate or the server name is missing, \<open>New\<close> fails with one of its three
  configuration errors, whatever the loader would do (so before any file is read, and
  \<open>New\<close> never touches the network); if the client key is not supplied, \<open>New\<close> succeeds
  without a TLS configuration whatever the other three are; and a TLS configuration is
  built only when all four are supplied.
\<close>

theorem New_tls_checks:
  "(sslKey \<noteq> [] \<and> (sslCert = [] \<or> sslCA = [] \<or> sslServerName = []) \<longrightarrow>
      (\<exists>e. is_config_error e \<and>
        (\<forall>ld :: 'c tls_loader.
           New ld user pass host dbName port sslKey sslCert sslCA sslServerName = Inl e)))
   \<and> (sslKey = [] \<longrightarrow>
      (\<forall>ld :: 'c tls_loader.
         \<exists>d. New ld user pass host dbName port sslKey sslCert sslCA sslServerName = Inr d
           \<and> tls_config d = None))
   \<and> (\<forall>(ld :: 'c tls_loader) d.
         New ld user pass host dbName port sslKey sslCert sslCA sslServerName = Inr d
           \<and> tls_config d \<noteq> None \<longrightarrow>
         sslKey \<noteq> [] \<and> sslCert \<noteq> [] \<and> sslCA \<noteq> [] \<and> sslServerName \<noteq> [])"
proof (intro conjI)
  show "sslKey \<noteq> [] \<and> (sslCert = [] \<or> sslCA = [] \<or> sslServerName = []) \<longrightarrow>
      (\<exists>e. is_config_error e \<and>
        (\<forall>ld :: 'c tls_loader.
           New ld user pass host dbName port sslKey sslCert sslCA sslServerName = Inl e))"
    using New_missing_field by blast
  show "sslKey = [] \<longrightarrow>
      (\<forall>ld :: 'c tls_loader.
         \<exists>d. New ld user pass host dbName port sslKey sslCert sslCA sslServerName = Inr d
           \<and> tls_config d = None)"
    by (simp add: New_without_key)
  show "\<forall>(ld :: 'c tls_loader) d.
         New ld user pass host dbName port sslKey sslCert sslCA sslServerName = Inr d
           \<and> tls_config d \<noteq> None \<longrightarrow>
         sslKey \<noteq> [] \<and> sslCert \<noteq> [] \<and> sslCA \<noteq> [] \<and> sslServerName \<noteq> []"
    using New_tls_built by blast
qed

theorem New_tls_checks_witness:
  "(\<exists>e. is_config_error e \<and>
      (\<forall>ld :: unit tls_loader.
         New ld ''u'' ''p'' ''h'' ''d'' 3306 ''key.pem'' [] ''ca.pem'' ''db.example'' = Inl e))
   \<and> (\<forall>ld :: unit tls_loader.
         \<exists>d. New ld ''u'' ''p'' ''h'' ''d'' 3306 [] ''cert.pem'' ''ca.pem'' ''db.example'' = Inr d
           \<and> tls_config d = None)
   \<and> (\<exists>d. New load_ok ''u'' ''p'' ''h'' ''d'' 3306 ''key.pem'' ''cert.pem'' ''ca.pem'' ''db.example'' = Inr d
           \<and> tls_config d \<noteq> None)"
proof -
  have 1: "\<exists>e. is_config_error e \<and>
      (\<forall>ld :: unit tls_loader.
         New ld ''u'' ''p'' ''h'' ''d'' 3306 ''key.pem'' [] ''ca.pem'' ''db.example'' = Inl e)"
    using New_tls_checks [where 'c = unit, of "''key.pem''" "[]" "''ca.pem''" "''db.example''"
        "''u''" "''p''" "''h''" "''d''" 3306]
    by simp
  have 2: "\<forall>ld :: unit tls_loader.
         \<exists>d. New ld ''u'' ''p'' ''h'' ''d'' 3306 [] ''cert.pem'' ''ca.pem'' ''db.example'' = Inr d
           \<and> tls_config d = None"
    using New_tls_checks [where 'c = unit, of "[]" "''cert.pem''" "''ca.pem''" "''db.example''"
        "''u''" "''p''" "''h''" "''d''" 3306]
    by simp
  have 3: "\<exists>d. New load_ok ''u'' ''p'' ''h'' ''d'' 3306 ''key.pem'' ''cert.pem'' ''ca.pem'' ''db.example'' = Inr d
           \<and> tls_config d \<noteq> None"
    by (simp add: New_def load_ok_def)
  from 1 2 3 show ?thesis by blast
qed

section \<open>Properties of the version table\<close>

lemma next_fault_none: "faults s = [] \<Longrightarrow> next_fault s = (None, s)"
  by (simp add: next_fault_def)

lemma next_fault_db:
  "next_fault s = (r, s1) \<Longrightarrow>
     db s1 = db s \<and> rollback_to s1 = rollback_to s \<and> now s1 = now s"
  by (auto simp: next_fault_def split: list.splits)

lemma next_fault_other: "next_fault s = (Some e, s1) \<Longrightarrow> \<exists>msg. e = OtherError msg"
  by (auto simp: next_fault_def split: list.splits)

lemma exec_dml_db:
  "exec_dml q s = (r, s1) \<Longrightarrow>
     (r \<noteq> None \<and> db s1 = db s) \<or> (r = None \<and> Inr (db s1) = q (db s))"
  unfolding exec_dml_def
  by (auto split: prod.splits option.splits sum.splits dest: next_fault_db)

lemma exec_ddl_db:
  "exec_ddl q s = (r, s1) \<Longrightarrow>
     (r \<noteq> None \<and> db s1 = db s) \<or> (r = None \<and> Inr (db s1) = q (db s))"
  unfolding exec_ddl_def
  by (auto split: prod.splits option.splits sum.splits dest: next_fault_db)

text \<open>
  The server's "table exists" error as each driver prints it, and what the code's search
  for \<open>Error 1050:\<close> finds in it.
\<close>

lemma nat_dec_1050: "nat_dec 1050 = ''1050''"
  by code_simp

lemma table_exists_recognised:
  "str_contains (error_text NumberOnly (table_exists_error ''metaversion'')) ''Error 1050:''"
  by (simp add: table_exists_error_def nat_dec_1050)

lemma table_exists_not_recognised:
  "\<not> str_contains (error_text NumberAndState (table_exists_error ''metaversion'')) ''Error 1050:''"
  by (simp add: table_exists_error_def nat_dec_1050 sqlstate_def)

lemma table_exists_text:
  "error_text NumberAndState (Wrap (table_exists_error ''metaversion'') ''create metaversion table'') =
     ''create metaversion table: Error 1050 (42S01): Table '' @ [CHR 0x27] @ ''metaversion''
       @ [CHR 0x27] @ '' already exists''"
  by (simp add: table_exists_error_def nat_dec_1050 sqlstate_def)

lemma get_version_cases:
  "get_version s = (r, s1) \<Longrightarrow>
     db s1 = db s \<and>
     (case r of
        Inr v \<Rightarrow> (\<exists>vs. metaversion (db s) = Some (v # vs))
      | Inl e \<Rightarrow> (e = ErrNoRows \<longrightarrow> metaversion (db s) = Some []))"
  unfolding get_version_def
  by (auto simp: no_such_table_def split: prod.splits option.splits list.splits
      dest: next_fault_db next_fault_other)

lemma exec_ddl_create_cases:
  "exec_ddl sql_create_metaversion s = (r, s1) \<Longrightarrow>
     (case r of
        None \<Rightarrow> metaversion (db s) = None \<and> db s1 = (db s)\<lparr>metaversion := Some []\<rparr>
      | Some e \<Rightarrow> db s1 = db s)"
  unfolding exec_ddl_def sql_create_metaversion_def
  by (auto split: prod.splits option.splits dest: next_fault_db)

lemma exec_dml_insert_version:
  "exec_dml (sql_insert_version v) s = (None, s1) \<Longrightarrow>
     \<exists>rows. metaversion (db s) = Some rows \<and> db s1 = (db s)\<lparr>metaversion := Some (rows @ [v])\<rparr>"
  unfolding exec_dml_def sql_insert_version_def
  by (auto split: prod.splits option.splits if_splits dest: next_fault_db)

lemma read_or_seed_cases:
  assumes "read_or_seed_version created dv s = (Inr v, s1)"
  shows "(metaversion (db s) = Some [] \<and> v = (if created then dv else 0)
            \<and> db s1 = (db s)\<lparr>metaversion := Some [v]\<rparr>)
       \<or> (\<exists>vs. metaversion (db s) = Some (v # vs) \<and> db s1 = db s)"
  using assms unfolding read_or_seed_version_def
  by (auto simp: Let_def split: prod.splits sum.splits if_splits option.splits
      dest!: get_version_cases exec_dml_insert_version)

text \<open>What a call that returns a version found and what it left, with either driver.\<close>

lemma create_version_cases:
  assumes "CreateMetaVersionIfNotExists dv s = (Inr v, s')"
  shows "(metaversion (db s) = None \<and> v = dv \<and> db s' = (db s)\<lparr>metaversion := Some [dv]\<rparr>)
       \<or> (metaversion (db s) = Some [] \<and> v = 0 \<and> db s' = (db s)\<lparr>metaversion := Some [0]\<rparr>)
       \<or> (\<exists>vs. metaversion (db s) = Some (v # vs) \<and> db s' = db s)"
proof (cases "exec_ddl sql_create_metaversion s")
  case (Pair r s1)
  show ?thesis
  proof (cases r)
    case None
    with Pair assms have rs: "read_or_seed_version True dv s1 = (Inr v, s')"
      by (simp add: CreateMetaVersionIfNotExists_def)
    from Pair None have d1: "metaversion (db s) = None" "db s1 = (db s)\<lparr>metaversion := Some []\<rparr>"
      using exec_ddl_create_cases[of s r s1] by auto
    from read_or_seed_cases[OF rs] d1 show ?thesis by auto
  next
    case (Some e)
    with Pair assms have rs: "read_or_seed_version False dv s1 = (Inr v, s')"
      by (simp add: CreateMetaVersionIfNotExists_def split: if_splits)
    from Pair Some have d1: "db s1 = db s"
      using exec_ddl_create_cases[of s r s1] by auto
    from read_or_seed_cases[OF rs] d1 show ?thesis by auto
  qed
qed

text \<open>
  Through a driver that prints \<open>Error 1050: ...\<close> and with no failure from outside, the
  call returns a version.
\<close>

lemma create_version_succeeds:
  assumes "faults s = []" and "driver s = NumberOnly"
    and "metaversion (db s) = None \<longrightarrow> fits_integer dv"
  shows "\<exists>v s'. CreateMetaVersionIfNotExists dv s = (Inr v, s')"
proof (cases "metaversion (db s)")
  case None
  with assms show ?thesis
    by (simp add: CreateMetaVersionIfNotExists_def exec_ddl_def next_fault_none
        sql_create_metaversion_def read_or_seed_version_def get_version_def exec_dml_def
        sql_insert_version_def)
next
  case (Some rows)
  with assms table_exists_recognised show ?thesis
    by (cases rows) (simp_all add: CreateMetaVersionIfNotExists_def exec_ddl_def next_fault_none
        sql_create_metaversion_def read_or_seed_version_def get_version_def exec_dml_def
        sql_insert_version_def fits_integer_def)
qed

text \<open>
  Through a driver that prints \<open>Error 1050 (42S01): ...\<close> the search fails: on every
  database where the version table exists, whatever it holds, the call returns the
  wrapped "table exists" error and reads nothing.
\<close>

lemma create_version_refused:
  assumes "faults s = []" and "driver s = NumberAndState" and "metaversion (db s) = Some rows"
  shows "CreateMetaVersionIfNotExists dv s =
     (Inl (Wrap (table_exists_error ''metaversion'') ''create metaversion table''),
      s\<lparr>rollback_to := None\<rparr>)"
  using assms table_exists_not_recognised
  by (simp add: CreateMetaVersionIfNotExists_def exec_ddl_def next_fault_none
      sql_create_metaversion_def)

text \<open>
  What the claims C3 and C4 describe is what the code does through the older driver: a
  call that returns a version has created and seeded the table with \<open>defaultVersion\<close>,
  or seeded an empty table with 0, or left a table with a row as it was, and the version
  returned is the first row of the table.
\<close>

lemma create_version_seeds_and_reports:
  "(faults s = [] \<and> driver s = NumberOnly \<and> (metaversion (db s) = None \<longrightarrow> fits_integer dv) \<longrightarrow>
      (\<exists>v s'. CreateMetaVersionIfNotExists dv s = (Inr v, s')))
   \<and> (\<forall>v s'. CreateMetaVersionIfNotExists dv s = (Inr v, s') \<longrightarrow>
        (metaversion (db s) = None \<longrightarrow> metaversion (db s') = Some [dv] \<and> v = dv)
      \<and> (metaversion (db s) = Some [] \<longrightarrow> metaversion (db s') = Some [0] \<and> v = 0)
      \<and> (\<forall>x xs. metaversion (db s) = Some (x # xs) \<longrightarrow> db s' = db s \<and> v = x)
      \<and> (\<exists>rows. metaversion (db s') = Some (v # rows)))"
proof (intro conjI allI impI)
  assume "faults s = [] \<and> driver s = NumberOnly \<and> (metaversion (db s) = None \<longrightarrow> fits_integer dv)"
  then show "\<exists>v s'. CreateMetaVersionIfNotExists dv s = (Inr v, s')"
    by (intro create_version_succeeds) simp_all
next
  fix v s' assume a: "CreateMetaVersionIfNotExists dv s = (Inr v, s')"
  { assume "metaversion (db s) = None"
    with create_version_cases[OF a] show "metaversion (db s') = Some [dv]" "v = dv" by auto }
  { assume "metaversion (db s) = Some []"
    with create_version_cases[OF a] show "metaversion (db s') = Some [0]" "v = 0" by auto }
  { fix x xs assume "metaversion (db s) = Some (x # xs)"
    with create_version_cases[OF a] show "db s' = db s" "v = x" by auto }
  from create_version_cases[OF a] show "\<exists>rows. metaversion (db s') = Some (v # rows)" by auto
qed

text \<open>The three cases through the older driver, on concrete databases.\<close>

lemma create_version_legacy_examples:
  "CreateMetaVersionIfNotExists 7 (connect_legacy no_tables) =
     (Inr 7, connect_legacy (no_tables\<lparr>metaversion := Some [7]\<rparr>))"
  "CreateMetaVersionIfNotExists 7 (connect_legacy (no_tables\<lparr>metaversion := Some []\<rparr>)) =
     (Inr 0, connect_legacy (no_tables\<lparr>metaversion := Some [0]\<rparr>))"
  "CreateMetaVersionIfNotExists 7 (connect_legacy (no_tables\<lparr>metaversion := Some [1]\<rparr>)) =
     (Inr 1, connect_legacy (no_tables\<lparr>metaversion := Some [1]\<rparr>))"
  using table_exists_recognised
  by (simp_all add: connect_legacy_def no_tables_def CreateMetaVersionIfNotExists_def exec_ddl_def
      next_fault_def sql_create_metaversion_def read_or_seed_version_def get_version_def
      exec_dml_def sql_insert_version_def fits_integer_def)

text \<open>
  C3 says that when the version table already exists the call seeds it with 0 if it is
  empty and returns the stored version if a row is there. The code means to (its comment
  reads "Check if the table already existed"), but it recognises the existing table by
  searching the error's text for \<open>Error 1050:\<close>, and the driver from v1.7.0 on prints
  \<open>Error 1050 (42S01):\<close>. Through that driver the call on a table holding the row 1, and
  the call on an empty table, both return the error of \<open>CREATE TABLE\<close>; nothing is
  seeded and no version is reported.
\<close>

theorem CreateMetaVersionIfNotExists_fails_on_existing_table:
  "CreateMetaVersionIfNotExists 1 (connect (no_tables\<lparr>metaversion := Some [1]\<rparr>)) =
     (Inl (Wrap (table_exists_error ''metaversion'') ''create metaversion table''),
      connect (no_tables\<lparr>metaversion := Some [1]\<rparr>))
   \<and> CreateMetaVersionIfNotExists 1 (connect (no_tables\<lparr>metaversion := Some []\<rparr>)) =
     (Inl (Wrap (table_exists_error ''metaversion'') ''create metaversion table''),
      connect (no_tables\<lparr>metaversion := Some []\<rparr>))"
  using table_exists_not_recognised
  by (simp add: connect_def no_tables_def CreateMetaVersionIfNotExists_def exec_ddl_def
      next_fault_def sql_create_metaversion_def)

text \<open>A default version beyond the \<open>INTEGER\<close> column: the table is created, the insert
  is refused, and the call returns that error.\<close>

lemma CreateMetaVersionIfNotExists_out_of_range:
  "CreateMetaVersionIfNotExists 2147483648 (connect no_tables) =
     (Inl (Wrap (out_of_range ''version'') ''insert version''),
      connect (no_tables\<lparr>metaversion := Some []\<rparr>))"
  by (simp add: connect_def no_tables_def CreateMetaVersionIfNotExists_def exec_ddl_def
      next_fault_def sql_create_metaversion_def read_or_seed_version_def get_version_def
      exec_dml_def sql_insert_version_def fits_integer_def)

text \<open>Whatever a call returns, it leaves the database in one of these shapes.\<close>

lemma read_or_seed_db:
  assumes "read_or_seed_version created dv s = (r, s1)"
  shows "db s1 = db s
       \<or> (\<exists>v. metaversion (db s) = Some [] \<and> db s1 = (db s)\<lparr>metaversion := Some [v]\<rparr>)"
proof (cases "get_version s")
  case (Pair g s0)
  then have d0: "db s0 = db s" using get_version_cases by blast
  show ?thesis
  proof (cases g)
    case (Inr v)
    with Pair assms d0 show ?thesis by (simp add: read_or_seed_version_def)
  next
    case (Inl e)
    show ?thesis
    proof (cases "e = ErrNoRows")
      case False
      with Inl Pair assms d0 show ?thesis by (simp add: read_or_seed_version_def)
    next
      case True
      with Inl Pair have mt: "metaversion (db s) = Some []"
        using get_version_cases[of s g s0] by simp
      obtain r2 s2 where x: "exec_dml (sql_insert_version (if \<not> created then 0 else dv)) s0 = (r2, s2)"
        by (cases "exec_dml (sql_insert_version (if \<not> created then 0 else dv)) s0")
      with Inl True Pair assms have s12: "s1 = s2"
        by (auto simp: read_or_seed_version_def Let_def split: option.splits)
      from exec_dml_db[OF x] mt d0 s12 show ?thesis
        by (auto simp: sql_insert_version_def split: if_splits)
    qed
  qed
qed

lemma create_version_db:
  assumes "CreateMetaVersionIfNotExists dv s = (r, s1)"
  shows "db s1 = db s
       \<or> (\<exists>v. metaversion (db s) = Some [] \<and> db s1 = (db s)\<lparr>metaversion := Some [v]\<rparr>)
       \<or> (metaversion (db s) = None \<and>
            (db s1 = (db s)\<lparr>metaversion := Some []\<rparr>
             \<or> (\<exists>v. db s1 = (db s)\<lparr>metaversion := Some [v]\<rparr>)))"
proof (cases "exec_ddl sql_create_metaversion s")
  case (Pair c s0)
  show ?thesis
  proof (cases c)
    case None
    with Pair assms have rs: "read_or_seed_version True dv s0 = (r, s1)"
      by (simp add: CreateMetaVersionIfNotExists_def)
    from Pair None have d1: "metaversion (db s) = None" "db s0 = (db s)\<lparr>metaversion := Some []\<rparr>"
      using exec_ddl_create_cases[of s c s0] by auto
    from read_or_seed_db[OF rs] d1 show ?thesis by auto
  next
    case (Some e)
    from Pair Some have d1: "db s0 = db s"
      using exec_ddl_create_cases[of s c s0] by auto
    show ?thesis
    proof (cases "str_contains (error_text (driver s0) e) ''Error 1050:''")
      case True
      with Some Pair assms have rs: "read_or_seed_version False dv s0 = (r, s1)"
        by (simp add: CreateMetaVersionIfNotExists_def)
      from read_or_seed_db[OF rs] d1 show ?thesis by auto
    next
      case False
      with Some Pair assms d1 show ?thesis
        by (simp add: CreateMetaVersionIfNotExists_def)
    qed
  qed
qed

text \<open>
  With either driver: from a database whose version table is absent or holds at most one
  row, every call leaves it absent or with at most one row; after a call that returns a
  version the table holds exactly one row, that version; and if two consecutive calls
  both return a version, it is the same version.
\<close>

lemma create_version_stable:
  assumes "at_most_one_row (db s)"
  shows "(\<forall>dv r s1. CreateMetaVersionIfNotExists dv s = (r, s1) \<longrightarrow> at_most_one_row (db s1))
    \<and> (\<forall>dv v s1. CreateMetaVersionIfNotExists dv s = (Inr v, s1) \<longrightarrow>
          metaversion (db s1) = Some [v])
    \<and> (\<forall>dv1 dv2 v w s1 s2.
          CreateMetaVersionIfNotExists dv1 s = (Inr v, s1) \<and>
          CreateMetaVersionIfNotExists dv2 s1 = (Inr w, s2) \<longrightarrow>
          w = v \<and> metaversion (db s2) = Some [v])"
proof -
  have inv: "at_most_one_row (db s1)"
    if "CreateMetaVersionIfNotExists dv s = (r, s1)" for dv r s1
    using create_version_db[OF that] assms by (auto simp: at_most_one_row_def)
  have one: "metaversion (db s1) = Some [v]"
    if "CreateMetaVersionIfNotExists dv s = (Inr v, s1)" for dv v s1
    using create_version_cases[OF that] assms by (auto simp: at_most_one_row_def)
  have two: "w = v \<and> metaversion (db s2) = Some [v]"
    if a1: "CreateMetaVersionIfNotExists dv1 s = (Inr v, s1)"
      and a2: "CreateMetaVersionIfNotExists dv2 s1 = (Inr w, s2)" for dv1 dv2 v w s1 s2
    using create_version_cases[OF a2] one[OF a1] by auto
  show ?thesis using inv one two by blast
qed

text \<open>Two consecutive calls through the older driver: the same version both times.\<close>

lemma create_version_twice_legacy:
  "CreateMetaVersionIfNotExists 1 (connect_legacy no_tables) =
     (Inr 1, connect_legacy (no_tables\<lparr>metaversion := Some [1]\<rparr>))"
  "CreateMetaVersionIfNotExists 5 (connect_legacy (no_tables\<lparr>metaversion := Some [1]\<rparr>)) =
     (Inr 1, connect_legacy (no_tables\<lparr>metaversion := Some [1]\<rparr>))"
  using table_exists_recognised
  by (simp_all add: connect_legacy_def no_tables_def CreateMetaVersionIfNotExists_def exec_ddl_def
      next_fault_def sql_create_metaversion_def read_or_seed_version_def get_version_def
      exec_dml_def sql_insert_version_def fits_integer_def)

text \<open>
  C4 says that two consecutive calls report the same version. Through the driver from
  v1.7.0 on they do not: on a database without the table the first call creates it and
  reports 1, and the second call, finding the table there, returns the error of
  \<open>CREATE TABLE\<close> and reports no version (the Go call returns 0 with the error). The
  defect is the one of C3, the search for \<open>Error 1050:\<close> in the error's text. What the
  claim says of the rows holds: the table has exactly one row after the first call, and
  still after the second.
\<close>

theorem CreateMetaVersionIfNotExists_second_call_fails:
  "CreateMetaVersionIfNotExists 1 (connect no_tables) =
     (Inr 1, connect (no_tables\<lparr>metaversion := Some [1]\<rparr>))
   \<and> CreateMetaVersionIfNotExists 1 (connect (no_tables\<lparr>metaversion := Some [1]\<rparr>)) =
     (Inl (Wrap (table_exists_error ''metaversion'') ''create metaversion table''),
      connect (no_tables\<lparr>metaversion := Some [1]\<rparr>))"
  using table_exists_not_recognised
  by (simp add: connect_def no_tables_def CreateMetaVersionIfNotExists_def exec_ddl_def
      next_fault_def sql_create_metaversion_def read_or_seed_version_def get_version_def
      exec_dml_def sql_insert_version_def fits_integer_def)


section \<open>Properties of the checkpoint log and the migration records\<close>

lemma exec_dml_run:
  "faults s = [] \<Longrightarrow> exec_dml q s =
     (case q (db s) of Inl e \<Rightarrow> (Some e, s) | Inr d \<Rightarrow> (None, s\<lparr>db := d\<rparr>))"
  by (simp add: exec_dml_def next_fault_none)

lemma exec_ddl_run:
  "faults s = [] \<Longrightarrow> exec_ddl q s =
     (case q (db s) of Inl e \<Rightarrow> (Some e, s\<lparr>rollback_to := None\<rparr>)
                     | Inr d \<Rightarrow> (None, s\<lparr>db := d, rollback_to := None\<rparr>))"
  by (simp add: exec_ddl_def next_fault_none)

lemma exec_dml_faults:
  "exec_dml q s = (r, s1) \<Longrightarrow> faults s = [] \<Longrightarrow> faults s1 = []"
  by (auto simp: exec_dml_def next_fault_def split: list.splits sum.splits)

lemma exec_dml_now:
  "exec_dml q s = (r, s1) \<Longrightarrow> now s1 = now s"
  by (auto simp: exec_dml_def split: prod.splits option.splits sum.splits dest: next_fault_db)

lemma select_checkpoints_result:
  "select_checkpoints f s = (Inr r, s1) \<Longrightarrow>
     \<exists>t. metacheckpoints (db s) = Some t \<and>
       r = map cp_md5 (sort_key cp_idx (filter (\<lambda>x. cp_filename x = f) (cp_rows t)))"
  unfolding select_checkpoints_def
  by (auto split: prod.splits option.splits dest: next_fault_db)

lemma select_checkpoints_run:
  "faults s = [] \<Longrightarrow> metacheckpoints (db s) = Some t \<Longrightarrow>
   select_checkpoints f s =
     (Inr (map cp_md5 (sort_key cp_idx (filter (\<lambda>x. cp_filename x = f) (cp_rows t)))), s)"
  by (simp add: select_checkpoints_def next_fault_none)

text \<open>
  C9: after a call of \<open>DeleteMetaCheckpoints\<close> that returns no error, the checkpoints
  table has no row at all, so listing the checkpoints of any filename gives the empty
  list: every call of \<open>GetMetaCheckpoints\<close> that returns a list returns \<open>[]\<close>, and it
  does return one when no failure comes from outside.
\<close>
theorem DeleteMetaCheckpoints_clears_all:
  assumes "DeleteMetaCheckpoints s = (None, s1)"
  shows "(\<exists>t. metacheckpoints (db s1) = Some t \<and> cp_rows t = [])
       \<and> (\<forall>f r s2. GetMetaCheckpoints f s1 = (Inr r, s2) \<longrightarrow> r = [])
       \<and> (\<forall>f. faults s1 = [] \<longrightarrow> GetMetaCheckpoints f s1 = (Inr [], s1))"
proof -
  from assms have "Inr (db s1) = sql_delete_checkpoints (db s)"
    using exec_dml_db[of sql_delete_checkpoints s None s1] by (simp add: DeleteMetaCheckpoints_def)
  then have e: "\<exists>t. metacheckpoints (db s1) = Some t \<and> cp_rows t = []"
    by (auto simp: sql_delete_checkpoints_def split: option.splits)
  then obtain t where t: "metacheckpoints (db s1) = Some t" "cp_rows t = []" by blast
  have a: "r = []" if "GetMetaCheckpoints f s1 = (Inr r, s2)" for f r s2
    using select_checkpoints_result[of f s1 r s2] that t by (simp add: GetMetaCheckpoints_def)
  have b: "GetMetaCheckpoints f s1 = (Inr [], s1)" if "faults s1 = []" for f
    using select_checkpoints_run[OF that t(1), of f] t(2) by (simp add: GetMetaCheckpoints_def)
  from e a b show ?thesis by blast
qed

lemma insert_checkpoint_ok:
  assumes "InsertMetaCheckpoint f c m i s = (None, s1)"
  shows "\<exists>t. metacheckpoints (db s) = Some t \<and> cp_has_content t
          \<and> (f, i) \<notin> set (map (\<lambda>r. (cp_filename r, cp_idx r)) (cp_rows t))
          \<and> metacheckpoints (db s1) = Some (t\<lparr>cp_rows := cp_rows t @
                [\<lparr>cp_filename = f, cp_idx = i, cp_md5 = m, cp_content = c, cp_createdat = now s\<rparr>]\<rparr>)"
proof -
  from assms have "Inr (db s1) = sql_insert_checkpoint (now s) f c i m (db s)"
    using exec_dml_db[of "sql_insert_checkpoint (now s) f c i m" s None s1]
    by (simp add: InsertMetaCheckpoint_def)
  then show ?thesis
    by (auto simp: sql_insert_checkpoint_def split: option.splits if_splits)
qed

lemma insert_checkpoint_duplicate:
  assumes "metacheckpoints (db s) = Some t"
    and "(f, i) \<in> set (map (\<lambda>r. (cp_filename r, cp_idx r)) (cp_rows t))"
  shows "\<exists>e s1. InsertMetaCheckpoint f c m i s = (Some e, s1) \<and> db s1 = db s
          \<and> (faults s = [] \<and> cp_has_content t \<and> fits_varchar255 f \<and> fits_text c
                \<and> fits_integer i \<and> fits_varchar255 m \<longrightarrow>
              e = duplicate_entry (f @ ''-'' @ int_dec i) ''PRIMARY'')"
proof (cases "InsertMetaCheckpoint f c m i s")
  case (Pair r s1)
  have q: "\<exists>e. sql_insert_checkpoint ts f c i m (db s) = Inl e" for ts
    using assms by (auto simp: sql_insert_checkpoint_def)
  from Pair exec_dml_db[of "sql_insert_checkpoint (now s) f c i m" s r s1] q[of "now s"]
  have r: "r \<noteq> None" "db s1 = db s"
    by (auto simp: InsertMetaCheckpoint_def)
  then obtain e where e: "r = Some e" by auto
  have "e = duplicate_entry (f @ ''-'' @ int_dec i) ''PRIMARY''"
    if "faults s = []" "cp_has_content t" "fits_varchar255 f" "fits_text c" "fits_integer i" "fits_varchar255 m"
    using that Pair e assms
    by (simp add: InsertMetaCheckpoint_def exec_dml_run sql_insert_checkpoint_def)
  with Pair e r show ?thesis by blast
qed


text \<open>
  C6: for every filename \<open>F\<close> with no checkpoint yet, after \<open>InsertMetaCheckpoint\<close> has
  recorded checksum \<open>A\<close> at index \<open>i\<close> and then checksum \<open>B\<close> at index \<open>j\<close> (both
  calls returning no error; the claim's case is \<open>i = 0\<close>, \<open>j = 1\<close>), the indices are
  distinct and \<open>GetMetaCheckpoints F\<close> returns exactly the two checksums, the one with
  the smaller index first. Another insert for \<open>(F, i)\<close> then fails, whatever its content
  and checksum, and leaves the database as it was; when the server gets as far as the key
  (no failure from outside, values that fit their columns) the error is the duplicate
  entry error for the primary key.
\<close>
theorem checkpoints_listed_in_idx_order:
  assumes "metacheckpoints (db s) = Some t"
    and "F \<notin> set (map cp_filename (cp_rows t))"
    and "InsertMetaCheckpoint F c1 A i s = (None, s1)"
    and "InsertMetaCheckpoint F c2 B j s1 = (None, s2)"
  shows "i \<noteq> j
       \<and> (\<forall>r s3. GetMetaCheckpoints F s2 = (Inr r, s3) \<longrightarrow> r = (if i < j then [A, B] else [B, A]))
       \<and> (faults s2 = [] \<longrightarrow>
            GetMetaCheckpoints F s2 = (Inr (if i < j then [A, B] else [B, A]), s2))
       \<and> (\<forall>c3 C. \<exists>e s3. InsertMetaCheckpoint F c3 C i s2 = (Some e, s3) \<and> db s3 = db s2
            \<and> (faults s2 = [] \<and> fits_text c3 \<and> fits_varchar255 C \<longrightarrow>
                 e = duplicate_entry (F @ ''-'' @ int_dec i) ''PRIMARY'' \<and> is_duplicate_entry e))"
proof -
  let ?ra = "\<lparr>cp_filename = F, cp_idx = i, cp_md5 = A, cp_content = c1, cp_createdat = now s\<rparr>"
  let ?rb = "\<lparr>cp_filename = F, cp_idx = j, cp_md5 = B, cp_content = c2, cp_createdat = now s1\<rparr>"
  from insert_checkpoint_ok[OF assms(3)] assms(1)
  have t1: "metacheckpoints (db s1) = Some (t\<lparr>cp_rows := cp_rows t @ [?ra]\<rparr>)"
    and hc: "cp_has_content t" by auto
  from insert_checkpoint_ok[OF assms(4)] t1
  have t2: "metacheckpoints (db s2) = Some (t\<lparr>cp_rows := cp_rows t @ [?ra, ?rb]\<rparr>)"
    and ij: "i \<noteq> j" by auto
  have none: "filter (\<lambda>x. cp_filename x = F) (cp_rows t) = []"
    using assms(2) by (auto simp: filter_empty_conv)
  have sel: "map cp_md5 (sort_key cp_idx (filter (\<lambda>x. cp_filename x = F)
               (cp_rows (t\<lparr>cp_rows := cp_rows t @ [?ra, ?rb]\<rparr>)))) = (if i < j then [A, B] else [B, A])"
    using ij none by simp
  have a: "r = (if i < j then [A, B] else [B, A])" if "GetMetaCheckpoints F s2 = (Inr r, s3)" for r s3
    using select_checkpoints_result[of F s2 r s3] that t2 sel by (simp add: GetMetaCheckpoints_def)
  have b: "GetMetaCheckpoints F s2 = (Inr (if i < j then [A, B] else [B, A]), s2)" if "faults s2 = []"
    using select_checkpoints_run[OF that t2, of F] sel by (simp add: GetMetaCheckpoints_def)
  have fits: "fits_varchar255 F" "fits_integer i"
    using assms(1,3) exec_dml_db[of "sql_insert_checkpoint (now s) F c1 i A" s None s1]
    by (auto simp: InsertMetaCheckpoint_def sql_insert_checkpoint_def split: if_splits)
  have mem: "(F, i) \<in> set (map (\<lambda>r. (cp_filename r, cp_idx r)) (cp_rows (t\<lparr>cp_rows := cp_rows t @ [?ra, ?rb]\<rparr>)))"
    by simp
  have c: "\<exists>e s3. InsertMetaCheckpoint F c3 C i s2 = (Some e, s3) \<and> db s3 = db s2
            \<and> (faults s2 = [] \<and> fits_text c3 \<and> fits_varchar255 C \<longrightarrow>
                 e = duplicate_entry (F @ ''-'' @ int_dec i) ''PRIMARY'' \<and> is_duplicate_entry e)" for c3 C
    using insert_checkpoint_duplicate[OF t2 mem, of c3 C] hc fits
    by (auto simp: duplicate_entry_def)
  from ij a b c show ?thesis by blast
qed
lemma meta_insert_check_Inr:
  "meta_insert_check f c m d = Inr t \<longleftrightarrow>
     meta d = Some t \<and> content_col t \<noteq> NoColumn \<and> fits_varchar255 f \<and> fits_text c \<and> fits_varchar255 m"
  by (auto simp: meta_insert_check_def split: option.splits)

lemma meta_insert_check_not_dup:
  "meta_insert_check f c m d = Inl e \<Longrightarrow> \<not> is_duplicate_entry e"
  by (auto simp: meta_insert_check_def no_such_table_def unknown_column_def data_too_long_def
      split: option.splits if_splits)

lemma duplicate_entry_is: "is_duplicate_entry (duplicate_entry v k)"
  by (simp add: duplicate_entry_def)

text \<open>
  C7: for every filename already in the migrations table, \<open>InsertMigration\<close> with that
  filename returns an error and leaves the database as it was; when the server gets as
  far as the key (no failure from outside, a \<open>content\<close> column, values that fit their
  columns) the error is the driver's duplicate entry error (number 1062) for the key
  \<open>filename\<close>, passed on unwrapped. Conversely, on a table without the legacy md5 index,
  \<open>InsertMigration\<close> returns a duplicate entry error only when the filename was already
  there: the error kind tells "already applied" from every other failure.
\<close>
theorem InsertMigration_duplicate_filename:
  assumes "meta (db s) = Some t"
  shows "(f \<in> set (map mr_filename (meta_rows t)) \<longrightarrow>
           (\<exists>e s'. InsertMigration f c m s = (Some e, s') \<and> db s' = db s
              \<and> (faults s = [] \<and> content_col t \<noteq> NoColumn \<and> fits_varchar255 f \<and> fits_text c
                    \<and> fits_varchar255 m \<longrightarrow>
                  e = duplicate_entry f ''filename'' \<and> is_duplicate_entry e)))
       \<and> (\<forall>e s'. InsertMigration f c m s = (Some e, s') \<and> is_duplicate_entry e \<and> \<not> md5_index t \<longrightarrow>
             f \<in> set (map mr_filename (meta_rows t)))"
proof (intro conjI impI allI)
  assume mem: "f \<in> set (map mr_filename (meta_rows t))"
  obtain r s' where p: "InsertMigration f c m s = (r, s')" by (cases "InsertMigration f c m s")
  have q: "\<exists>e. sql_insert_meta (now s) f c m (db s) = Inl e"
  proof (cases "meta_insert_check f c m (db s)")
    case (Inl e1)
    then show ?thesis by (simp add: sql_insert_meta_def)
  next
    case (Inr t1)
    then have "t1 = t" using assms by (simp add: meta_insert_check_Inr)
    with Inr mem show ?thesis by (simp add: sql_insert_meta_def)
  qed
  from p q exec_dml_db[of "sql_insert_meta (now s) f c m" s r s']
  have r: "r \<noteq> None" "db s' = db s" by (auto simp: InsertMigration_def)
  then obtain e where e: "r = Some e" by auto
  have "e = duplicate_entry f ''filename'' \<and> is_duplicate_entry e"
    if "faults s = []" "content_col t \<noteq> NoColumn" "fits_varchar255 f" "fits_text c" "fits_varchar255 m"
  proof -
    from that assms have "meta_insert_check f c m (db s) = Inr t" by (simp add: meta_insert_check_Inr)
    with that(1) p e mem show ?thesis
      by (auto simp add: InsertMigration_def exec_dml_run sql_insert_meta_def duplicate_entry_is)
  qed
  with p e r show "\<exists>e s'. InsertMigration f c m s = (Some e, s') \<and> db s' = db s
              \<and> (faults s = [] \<and> content_col t \<noteq> NoColumn \<and> fits_varchar255 f \<and> fits_text c
                    \<and> fits_varchar255 m \<longrightarrow>
                  e = duplicate_entry f ''filename'' \<and> is_duplicate_entry e)" by blast
next
  fix e s'
  assume a: "InsertMigration f c m s = (Some e, s') \<and> is_duplicate_entry e \<and> \<not> md5_index t"
  show "f \<in> set (map mr_filename (meta_rows t))"
  proof (rule ccontr)
    assume nm: "f \<notin> set (map mr_filename (meta_rows t))"
    from a have x: "exec_dml (sql_insert_meta (now s) f c m) s = (Some e, s')"
      by (simp add: InsertMigration_def)
    have "\<not> is_duplicate_entry e"
    proof (cases "next_fault s")
      case (Pair fl s0)
      show ?thesis
      proof (cases fl)
        case (Some e0)
        with Pair x have "e = e0" by (simp add: exec_dml_def)
        with Pair Some next_fault_other[of s e0 s0] show ?thesis by auto
      next
        case None
        from Pair have d0: "db s0 = db s" using next_fault_db by blast
        from None Pair x d0 have y: "sql_insert_meta (now s) f c m (db s) = Inl e"
          by (auto simp: exec_dml_def split: sum.splits)
        show ?thesis
        proof (cases "meta_insert_check f c m (db s)")
          case (Inl e1)
          with y have "e = e1" by (simp add: sql_insert_meta_def)
          with Inl meta_insert_check_not_dup show ?thesis by blast
        next
          case (Inr t1)
          then have "t1 = t" using assms by (simp add: meta_insert_check_Inr)
          with Inr y nm a show ?thesis by (simp add: sql_insert_meta_def)
        qed
      qed
    qed
    with a show False by simp
  qed
qed

lemma overwrite_filename: "mr_filename (overwrite f c m r) = mr_filename r"
  by (simp add: overwrite_def)

lemma map_filename_overwrite:
  "map mr_filename (map (overwrite f c m) rows) = map mr_filename rows"
  by (simp add: overwrite_filename)

lemma image_filename_overwrite:
  "mr_filename ` overwrite f c m ` S = mr_filename ` S"
  by (simp add: image_image overwrite_filename)

lemma overwrite_sets:
  assumes "r \<in> set (map (overwrite f c m) rows)" and "mr_filename r = f"
  shows "mr_content r = Some c \<and> mr_md5 r = m"
proof -
  from assms(1) obtain r0 where r0: "r = overwrite f c m r0" by auto
  with assms(2) have "mr_filename r0 = f" by (simp add: overwrite_filename)
  with r0 show ?thesis by (simp add: overwrite_def)
qed

text \<open>The statement's result on a table without the legacy index, by cases.\<close>

lemma upsert_no_index:
  assumes "meta d = Some t" and "\<not> md5_index t"
  shows "sql_upsert_meta ts f c m m c d =
     (case meta_insert_check f c m d of
        Inl e \<Rightarrow> Inl e
      | Inr t' \<Rightarrow>
          if f \<in> set (map mr_filename (meta_rows t))
          then Inr (d\<lparr>meta := Some (t\<lparr>meta_rows := map (overwrite f c m) (meta_rows t)\<rparr>)\<rparr>)
          else Inr (d\<lparr>meta := Some (t\<lparr>meta_rows := meta_rows t @ [new_meta_row ts f c m]\<rparr>)\<rparr>))"
proof (cases "meta_insert_check f c m d")
  case (Inl e)
  then show ?thesis by (simp add: sql_upsert_meta_def)
next
  case (Inr t')
  then have tt: "t' = t" and fit: "fits_varchar255 m" "fits_text c"
    using assms by (simp_all add: meta_insert_check_Inr)
  show ?thesis
  proof (cases "f \<in> set (map mr_filename (meta_rows t))")
    case True
    then have ex: "list_ex (\<lambda>r. mr_filename r = f) (meta_rows t)"
      by (auto simp: list_ex_iff)
    have "map (\<lambda>r. if mr_filename r = f then r\<lparr>mr_md5 := m, mr_content := Some c\<rparr> else r) (meta_rows t)
        = map (overwrite f c m) (meta_rows t)"
      by (simp add: overwrite_def)
    with Inr tt fit True ex assms show ?thesis
      by (simp add: sql_upsert_meta_def Let_def)
  next
    case False
    with Inr tt assms show ?thesis
      by (simp add: sql_upsert_meta_def Let_def list_ex_iff)
  qed
qed

lemma upsert_result:
  assumes "meta (db s) = Some t" and "\<not> md5_index t" and "UpsertMigration f c m s = (None, s')"
  shows "meta (db s') = Some (t\<lparr>meta_rows :=
           (if f \<in> set (map mr_filename (meta_rows t))
            then map (overwrite f c m) (meta_rows t)
            else meta_rows t @ [new_meta_row (now s) f c m])\<rparr>)"
proof -
  from assms(3) have "Inr (db s') = sql_upsert_meta (now s) f c m m c (db s)"
    using exec_dml_db[of "sql_upsert_meta (now s) f c m m c" s None s']
    by (simp add: UpsertMigration_def)
  then show ?thesis
    unfolding upsert_no_index[OF assms(1,2)]
    by (auto split: sum.splits if_splits)
qed

lemma upsert_succeeds:
  assumes "meta (db s) = Some t" and "\<not> md5_index t" and "faults s = []"
    and "content_col t \<noteq> NoColumn" and "fits_varchar255 f" and "fits_text c" and "fits_varchar255 m"
  shows "\<exists>s'. UpsertMigration f c m s = (None, s') \<and> faults s' = [] \<and> now s' = now s"
proof -
  from assms have "meta_insert_check f c m (db s) = Inr t" by (simp add: meta_insert_check_Inr)
  with assms(3) show ?thesis
    by (simp add: UpsertMigration_def exec_dml_run upsert_no_index[OF assms(1,2)])
qed

text \<open>
  C8: on a migrations table without the legacy md5 index, a call of \<open>UpsertMigration\<close>
  that returns no error has appended a new row when the filename was absent, holding the
  filename, the checksum and the content that were passed and the time of the call, and has
  overwritten the md5 and the content of the row with that filename, with the checksum and
  the content that were passed, when it was present.
  Two consecutive calls with the same filename and any two contents and checksums both
  return no error (given no failure from outside and values that fit their columns), and
  afterwards the rows with that filename, of which there is at least one, hold the second
  content and checksum.
\<close>
theorem UpsertMigration_inserts_or_overwrites:
  assumes "meta (db s) = Some t" and "\<not> md5_index t"
  shows "(\<forall>s'. UpsertMigration f c m s = (None, s') \<and> f \<notin> set (map mr_filename (meta_rows t)) \<longrightarrow>
            meta (db s') = Some (t\<lparr>meta_rows := meta_rows t @ [\<lparr>mr_filename = f, mr_md5 = m,
                mr_content = Some c, mr_createdat = now s\<rparr>]\<rparr>))
       \<and> (\<forall>s'. UpsertMigration f c m s = (None, s') \<and> f \<in> set (map mr_filename (meta_rows t)) \<longrightarrow>
            meta (db s') = Some (t\<lparr>meta_rows :=
              map (\<lambda>r. if mr_filename r = f then r\<lparr>mr_md5 := m, mr_content := Some c\<rparr> else r)
                (meta_rows t)\<rparr>))
       \<and> (faults s = [] \<and> content_col t \<noteq> NoColumn \<and> fits_varchar255 f
            \<and> fits_text c1 \<and> fits_varchar255 m1 \<and> fits_text c2 \<and> fits_varchar255 m2 \<longrightarrow>
            (\<exists>s1 s2 t2. UpsertMigration f c1 m1 s = (None, s1)
               \<and> UpsertMigration f c2 m2 s1 = (None, s2)
               \<and> meta (db s2) = Some t2
               \<and> f \<in> set (map mr_filename (meta_rows t2))
               \<and> (\<forall>r \<in> set (meta_rows t2). mr_filename r = f \<longrightarrow>
                     mr_content r = Some c2 \<and> mr_md5 r = m2)))"
proof (intro conjI allI impI)
  fix s' assume "UpsertMigration f c m s = (None, s') \<and> f \<notin> set (map mr_filename (meta_rows t))"
  then show "meta (db s') = Some (t\<lparr>meta_rows := meta_rows t @ [\<lparr>mr_filename = f, mr_md5 = m,
                mr_content = Some c, mr_createdat = now s\<rparr>]\<rparr>)"
    using upsert_result[OF assms, of f c m s'] by (simp add: new_meta_row_def)
next
  fix s' assume "UpsertMigration f c m s = (None, s') \<and> f \<in> set (map mr_filename (meta_rows t))"
  then show "meta (db s') = Some (t\<lparr>meta_rows :=
              map (\<lambda>r. if mr_filename r = f then r\<lparr>mr_md5 := m, mr_content := Some c\<rparr> else r)
                (meta_rows t)\<rparr>)"
    using upsert_result[OF assms, of f c m s'] by (simp add: overwrite_def)
next
  assume h: "faults s = [] \<and> content_col t \<noteq> NoColumn \<and> fits_varchar255 f
            \<and> fits_text c1 \<and> fits_varchar255 m1 \<and> fits_text c2 \<and> fits_varchar255 m2"
  from upsert_succeeds[OF assms, of f c1 m1] h
  obtain s1 where s1: "UpsertMigration f c1 m1 s = (None, s1)" "faults s1 = []" by blast
  define rows1 where "rows1 =
           (if f \<in> set (map mr_filename (meta_rows t))
            then map (overwrite f c1 m1) (meta_rows t)
            else meta_rows t @ [new_meta_row (now s) f c1 m1])"
  define t1 where "t1 = t\<lparr>meta_rows := rows1\<rparr>"
  from upsert_result[OF assms s1(1)] have m1: "meta (db s1) = Some t1"
    by (simp add: t1_def rows1_def)
  have ni: "\<not> md5_index t1" using assms(2) by (simp add: t1_def)
  have cc: "content_col t1 \<noteq> NoColumn" using h by (simp add: t1_def)
  have in1: "f \<in> set (map mr_filename rows1)"
  proof (cases "f \<in> set (map mr_filename (meta_rows t))")
    case True
    then show ?thesis by (simp add: rows1_def overwrite_filename)
  next
    case False
    then show ?thesis by (simp add: rows1_def new_meta_row_def)
  qed
  then have in1': "f \<in> set (map mr_filename (meta_rows t1))" by (simp add: t1_def)
  from upsert_succeeds[OF m1 ni s1(2) cc, of f c2 m2] h
  obtain s2 where s2: "UpsertMigration f c2 m2 s1 = (None, s2)" by blast
  define t2 where "t2 = t1\<lparr>meta_rows := map (overwrite f c2 m2) rows1\<rparr>"
  from upsert_result[OF m1 ni s2] in1'
  have m2: "meta (db s2) = Some t2"
    by (simp add: t2_def t1_def)
  have in2: "f \<in> set (map mr_filename (meta_rows t2))"
    using in1 by (simp add: t2_def overwrite_filename)
  have all2: "\<forall>r \<in> set (meta_rows t2). mr_filename r = f \<longrightarrow> mr_content r = Some c2 \<and> mr_md5 r = m2"
  proof (intro ballI impI)
    fix r assume "r \<in> set (meta_rows t2)" and "mr_filename r = f"
    then show "mr_content r = Some c2 \<and> mr_md5 r = m2"
      using overwrite_sets[of r f c2 m2 rows1] by (simp add: t2_def)
  qed
  show "\<exists>s1 s2 t2. UpsertMigration f c1 m1 s = (None, s1)
               \<and> UpsertMigration f c2 m2 s1 = (None, s2)
               \<and> meta (db s2) = Some t2
               \<and> f \<in> set (map mr_filename (meta_rows t2))
               \<and> (\<forall>r \<in> set (meta_rows t2). mr_filename r = f \<longrightarrow>
                     mr_content r = Some c2 \<and> mr_md5 r = m2)"
    using s1(1) s2 m2 in2 all2 by (intro exI[of _ s1] exI[of _ s2] exI[of _ t2] conjI)
qed


lemma insert_checkpoint_succeeds:
  assumes "faults s = []" and "metacheckpoints (db s) = Some t" and "cp_has_content t"
    and "fits_varchar255 f" and "fits_text c" and "fits_integer i" and "fits_varchar255 m"
    and "(f, i) \<notin> set (map (\<lambda>r. (cp_filename r, cp_idx r)) (cp_rows t))"
  shows "\<exists>s1. InsertMetaCheckpoint f c m i s = (None, s1) \<and> faults s1 = []"
  using assms
  by (simp add: InsertMetaCheckpoint_def exec_dml_run sql_insert_checkpoint_def)

lemma applied_db_tables:
  "metaversion applied_db = Some [1]"
  "meta applied_db = Some applied_meta"
  "metacheckpoints applied_db = Some applied_checkpoints"
  by (simp_all add: applied_db_def)

lemma applied_checkpoints_keys:
  "cp_has_content applied_checkpoints"
  "map (\<lambda>r. (cp_filename r, cp_idx r)) (cp_rows applied_checkpoints) = [(''10_y.sql'', 0), (''9_x.sql'', 0)]"
  "map cp_filename (cp_rows applied_checkpoints) = [''10_y.sql'', ''9_x.sql'']"
  by (simp_all add: applied_checkpoints_def)

lemma connect_fields: "db (connect d) = d" "faults (connect d) = []" "now (connect d) = 0"
  "rollback_to (connect d) = None" "driver (connect d) = NumberAndState"
  by (simp_all add: connect_def)

theorem DeleteMetaCheckpoints_clears_all_witness:
  "\<exists>s1. DeleteMetaCheckpoints (connect applied_db) = (None, s1)
      \<and> GetMetaCheckpoints ''10_y.sql'' (connect applied_db) = (Inr [''d3d9''], connect applied_db)
      \<and> GetMetaCheckpoints ''9_x.sql'' (connect applied_db) = (Inr [''45c4''], connect applied_db)
      \<and> GetMetaCheckpoints ''10_y.sql'' s1 = (Inr [], s1)
      \<and> GetMetaCheckpoints ''9_x.sql'' s1 = (Inr [], s1)"
proof -
  define t where "t = applied_checkpoints"
  have t: "metacheckpoints applied_db = Some t" by (simp add: t_def applied_db_tables)
  have d: "DeleteMetaCheckpoints (connect applied_db) =
      (None, (connect applied_db)\<lparr>db := applied_db\<lparr>metacheckpoints := Some (t\<lparr>cp_rows := []\<rparr>)\<rparr>\<rparr>)"
    using t by (simp add: DeleteMetaCheckpoints_def exec_dml_run connect_fields sql_delete_checkpoints_def)
  have f: "faults ((connect applied_db)\<lparr>db := applied_db\<lparr>metacheckpoints := Some (t\<lparr>cp_rows := []\<rparr>)\<rparr>\<rparr>) = []"
    by (simp add: connect_fields)
  have b1: "GetMetaCheckpoints ''10_y.sql'' (connect applied_db) = (Inr [''d3d9''], connect applied_db)"
    by (simp add: GetMetaCheckpoints_def select_checkpoints_def next_fault_none connect_fields
        applied_db_tables applied_checkpoints_def)
  have b2: "GetMetaCheckpoints ''9_x.sql'' (connect applied_db) = (Inr [''45c4''], connect applied_db)"
    by (simp add: GetMetaCheckpoints_def select_checkpoints_def next_fault_none connect_fields
        applied_db_tables applied_checkpoints_def)
  from DeleteMetaCheckpoints_clears_all[OF d] f d b1 b2 show ?thesis by blast
qed

theorem checkpoints_listed_in_idx_order_witness:
  "\<exists>s1 s2. InsertMetaCheckpoint ''11_z.sql'' ''INSERT INTO z VALUES (1)'' ''aaaa'' 0 (connect applied_db) = (None, s1)
      \<and> InsertMetaCheckpoint ''11_z.sql'' ''INSERT INTO z VALUES (2)'' ''bbbb'' 1 s1 = (None, s2)
      \<and> GetMetaCheckpoints ''11_z.sql'' s2 = (Inr [''aaaa'', ''bbbb''], s2)
      \<and> (\<exists>e s3. InsertMetaCheckpoint ''11_z.sql'' ''INSERT INTO z VALUES (3)'' ''cccc'' 0 s2 = (Some e, s3)
            \<and> db s3 = db s2 \<and> is_duplicate_entry e)"
proof -
  define t where "t = applied_checkpoints"
  have t: "metacheckpoints (db (connect applied_db)) = Some t" "cp_has_content t"
    "map (\<lambda>r. (cp_filename r, cp_idx r)) (cp_rows t) = [(''10_y.sql'', 0), (''9_x.sql'', 0)]"
    by (simp_all add: t_def connect_fields applied_db_tables applied_checkpoints_keys)
  have nf: "''11_z.sql'' \<notin> set (map cp_filename (cp_rows t))"
    by (simp only: t_def applied_checkpoints_keys) simp
  have fit: "fits_varchar255 ''11_z.sql''" "fits_text ''INSERT INTO z VALUES (1)''"
    "fits_text ''INSERT INTO z VALUES (2)''" "fits_text ''INSERT INTO z VALUES (3)''"
    "fits_integer 0" "fits_integer 1"
    "fits_varchar255 ''aaaa''" "fits_varchar255 ''bbbb''" "fits_varchar255 ''cccc''"
    by (simp_all add: fits_varchar255_def fits_text_def fits_integer_def)
  have k1: "(''11_z.sql'', 0) \<notin> set (map (\<lambda>r. (cp_filename r, cp_idx r)) (cp_rows t))"
    by (simp add: t(3))
  from insert_checkpoint_succeeds[OF connect_fields(2) t(1,2) fit(1,2,5,7) k1]
  obtain s1 where s1: "InsertMetaCheckpoint ''11_z.sql'' ''INSERT INTO z VALUES (1)'' ''aaaa'' 0 (connect applied_db) = (None, s1)"
    "faults s1 = []" by blast
  from insert_checkpoint_ok[OF s1(1)]
  obtain t' where t': "metacheckpoints (db (connect applied_db)) = Some t'"
    "metacheckpoints (db s1) = Some (t'\<lparr>cp_rows := cp_rows t' @
        [\<lparr>cp_filename = ''11_z.sql'', cp_idx = 0, cp_md5 = ''aaaa'',
          cp_content = ''INSERT INTO z VALUES (1)'', cp_createdat = now (connect applied_db)\<rparr>]\<rparr>)"
    by blast
  from t'(1) t(1) have tt: "t' = t" by simp
  define t1 where "t1 = t\<lparr>cp_rows := cp_rows t @
        [\<lparr>cp_filename = ''11_z.sql'', cp_idx = 0, cp_md5 = ''aaaa'',
          cp_content = ''INSERT INTO z VALUES (1)'', cp_createdat = now (connect applied_db)\<rparr>]\<rparr>"
  have t1: "metacheckpoints (db s1) = Some t1" "cp_has_content t1"
    "map (\<lambda>r. (cp_filename r, cp_idx r)) (cp_rows t1) = [(''10_y.sql'', 0), (''9_x.sql'', 0), (''11_z.sql'', 0)]"
    using t'(2) tt t(2,3) by (simp_all add: t1_def)
  have k2: "(''11_z.sql'', 1) \<notin> set (map (\<lambda>r. (cp_filename r, cp_idx r)) (cp_rows t1))"
    by (simp add: t1(3))
  from insert_checkpoint_succeeds[OF s1(2) t1(1,2) fit(1,3,6,8) k2]
  obtain s2 where s2: "InsertMetaCheckpoint ''11_z.sql'' ''INSERT INTO z VALUES (2)'' ''bbbb'' 1 s1 = (None, s2)"
    "faults s2 = []" by blast
  note th = checkpoints_listed_in_idx_order[OF t(1) nf s1(1) s2(1)]
  from th have "faults s2 = [] \<longrightarrow>
      GetMetaCheckpoints ''11_z.sql'' s2 = (Inr (if (0::int) < 1 then [''aaaa'', ''bbbb''] else [''bbbb'', ''aaaa'']), s2)"
    by (elim conjE)
  with s2(2) have g: "GetMetaCheckpoints ''11_z.sql'' s2 = (Inr [''aaaa'', ''bbbb''], s2)"
    by simp
  from th have "\<forall>c3 C. \<exists>e s3. InsertMetaCheckpoint ''11_z.sql'' c3 C 0 s2 = (Some e, s3)
            \<and> db s3 = db s2
            \<and> (faults s2 = [] \<and> fits_text c3 \<and> fits_varchar255 C \<longrightarrow>
                 e = duplicate_entry (''11_z.sql'' @ ''-'' @ int_dec 0) ''PRIMARY'' \<and> is_duplicate_entry e)"
    by (elim conjE)
  then have "\<exists>e s3. InsertMetaCheckpoint ''11_z.sql'' ''INSERT INTO z VALUES (3)'' ''cccc'' 0 s2 = (Some e, s3)
            \<and> db s3 = db s2
            \<and> (faults s2 = [] \<and> fits_text ''INSERT INTO z VALUES (3)'' \<and> fits_varchar255 ''cccc'' \<longrightarrow>
                 e = duplicate_entry (''11_z.sql'' @ ''-'' @ int_dec 0) ''PRIMARY'' \<and> is_duplicate_entry e)"
    by (elim allE)
  with s2(2) fit(4,9) have "\<exists>e s3. InsertMetaCheckpoint ''11_z.sql'' ''INSERT INTO z VALUES (3)'' ''cccc'' 0 s2 = (Some e, s3)
            \<and> db s3 = db s2 \<and> is_duplicate_entry e"
    by blast
  with s1(1) s2(1) g show ?thesis by blast
qed


lemma applied_meta_shape:
  "\<not> md5_index applied_meta" "content_col applied_meta = NotNull"
  "map mr_filename (meta_rows applied_meta) = [''10_y.sql'', ''9_x.sql'']"
  by (simp_all add: applied_meta_def)

theorem InsertMigration_duplicate_filename_witness:
  "\<exists>e s'. InsertMigration ''9_x.sql'' ''CREATE TABLE x2 (id INT)'' ''ffff'' (connect applied_db) = (Some e, s')
      \<and> db s' = applied_db \<and> e = duplicate_entry ''9_x.sql'' ''filename'' \<and> is_duplicate_entry e"
proof -
  define f where "f = ''9_x.sql''"
  define c where "c = ''CREATE TABLE x2 (id INT)''"
  define m where "m = ''ffff''"
  define s where "s = connect applied_db"
  have mt: "meta (db s) = Some applied_meta" by (simp add: s_def connect_fields applied_db_tables)
  have mem: "f \<in> set (map mr_filename (meta_rows applied_meta))"
    by (simp only: applied_meta_shape f_def) simp
  have cond: "faults s = [] \<and> content_col applied_meta \<noteq> NoColumn \<and> fits_varchar255 f \<and> fits_text c
                    \<and> fits_varchar255 m"
    by (simp add: s_def connect_fields applied_meta_shape f_def c_def m_def fits_varchar255_def fits_text_def)
  have d: "db s = applied_db" by (simp add: s_def connect_fields)
  note th = InsertMigration_duplicate_filename[OF mt, of f c m]
  from th have "f \<in> set (map mr_filename (meta_rows applied_meta)) \<longrightarrow>
           (\<exists>e s'. InsertMigration f c m s = (Some e, s') \<and> db s' = db s
              \<and> (faults s = [] \<and> content_col applied_meta \<noteq> NoColumn \<and> fits_varchar255 f \<and> fits_text c
                    \<and> fits_varchar255 m \<longrightarrow>
                  e = duplicate_entry f ''filename'' \<and> is_duplicate_entry e))"
    by (rule conjunct1)
  with mem obtain e s' where r: "InsertMigration f c m s = (Some e, s')" "db s' = db s"
      "faults s = [] \<and> content_col applied_meta \<noteq> NoColumn \<and> fits_varchar255 f \<and> fits_text c
                    \<and> fits_varchar255 m \<longrightarrow>
                  e = duplicate_entry f ''filename'' \<and> is_duplicate_entry e"
    by blast
  from r(3) cond have "e = duplicate_entry f ''filename'' \<and> is_duplicate_entry e" by (rule mp)
  with r(1,2) d have "\<exists>e s'. InsertMigration f c m s = (Some e, s')
      \<and> db s' = applied_db \<and> e = duplicate_entry f ''filename'' \<and> is_duplicate_entry e"
    by (intro exI[of _ e] exI[of _ s']) (simp add: duplicate_entry_is)
  then show ?thesis by (simp only: f_def c_def m_def s_def)
qed


theorem UpsertMigration_inserts_or_overwrites_witness:
  "(\<exists>s'. UpsertMigration ''11_z.sql'' ''CREATE TABLE z (id INT)'' ''6512'' (connect applied_db) = (None, s')
      \<and> meta (db s') = Some (applied_meta\<lparr>meta_rows := meta_rows applied_meta @
             [\<lparr>mr_filename = ''11_z.sql'', mr_md5 = ''6512'',
               mr_content = Some ''CREATE TABLE z (id INT)'', mr_createdat = 0\<rparr>]\<rparr>))
   \<and> (\<exists>s1 s2 t2. UpsertMigration ''9_x.sql'' ''CREATE TABLE x (id BIGINT)'' ''c20a'' (connect applied_db) = (None, s1)
      \<and> meta (db s1) = Some (applied_meta\<lparr>meta_rows :=
             map (\<lambda>r. if mr_filename r = ''9_x.sql''
                       then r\<lparr>mr_md5 := ''c20a'', mr_content := Some ''CREATE TABLE x (id BIGINT)''\<rparr> else r)
               (meta_rows applied_meta)\<rparr>)
      \<and> UpsertMigration ''9_x.sql'' ''CREATE TABLE x (id TEXT)'' ''70ef'' s1 = (None, s2)
      \<and> meta (db s2) = Some t2
      \<and> ''9_x.sql'' \<in> set (map mr_filename (meta_rows t2))
      \<and> (\<forall>r \<in> set (meta_rows t2). mr_filename r = ''9_x.sql'' \<longrightarrow>
             mr_content r = Some ''CREATE TABLE x (id TEXT)'' \<and> mr_md5 r = ''70ef''))"
proof -
  define z where "z = ''11_z.sql''"
  define zc where "zc = ''CREATE TABLE z (id INT)''"
  define zm where "zm = ''6512''"
  define f where "f = ''9_x.sql''"
  define c1 where "c1 = ''CREATE TABLE x (id BIGINT)''"
  define m1 where "m1 = ''c20a''"
  define c2 where "c2 = ''CREATE TABLE x (id TEXT)''"
  define m2 where "m2 = ''70ef''"
  define s where "s = connect applied_db"
  have mt: "meta (db s) = Some applied_meta" by (simp add: s_def connect_fields applied_db_tables)
  have ni: "\<not> md5_index applied_meta" by (rule applied_meta_shape)
  have fl: "faults s = []" and nw: "now s = 0" by (simp_all add: s_def connect_fields)
  have cc: "content_col applied_meta \<noteq> NoColumn" by (simp add: applied_meta_shape)
  have fits: "fits_varchar255 z" "fits_text zc" "fits_varchar255 zm" "fits_varchar255 f"
    "fits_text c1" "fits_varchar255 m1" "fits_text c2" "fits_varchar255 m2"
    by (simp_all add: z_def zc_def zm_def f_def c1_def m1_def c2_def m2_def
        fits_varchar255_def fits_text_def)
  have zn: "z \<notin> set (map mr_filename (meta_rows applied_meta))"
    by (simp only: applied_meta_shape z_def) simp
  have fm: "f \<in> set (map mr_filename (meta_rows applied_meta))"
    by (simp only: applied_meta_shape f_def) simp
  from upsert_succeeds[OF mt ni fl cc fits(1,2,3)]
  obtain s' where s': "UpsertMigration z zc zm s = (None, s')" by blast
  note th1 = UpsertMigration_inserts_or_overwrites[OF mt ni, of z zc zm]
  from th1 have "\<forall>s'. UpsertMigration z zc zm s = (None, s')
        \<and> z \<notin> set (map mr_filename (meta_rows applied_meta)) \<longrightarrow>
      meta (db s') = Some (applied_meta\<lparr>meta_rows := meta_rows applied_meta @
             [\<lparr>mr_filename = z, mr_md5 = zm, mr_content = Some zc, mr_createdat = now s\<rparr>]\<rparr>)"
    by (rule conjunct1)
  with s' zn have a: "meta (db s') = Some (applied_meta\<lparr>meta_rows := meta_rows applied_meta @
             [\<lparr>mr_filename = z, mr_md5 = zm, mr_content = Some zc, mr_createdat = 0\<rparr>]\<rparr>)"
    unfolding nw by blast
  note th2 = UpsertMigration_inserts_or_overwrites[OF mt ni, where f = f and c = c1 and m = m1
      and ?c1.0 = c1 and ?m1.0 = m1 and ?c2.0 = c2 and ?m2.0 = m2]
  have pre: "faults s = [] \<and> content_col applied_meta \<noteq> NoColumn \<and> fits_varchar255 f
            \<and> fits_text c1 \<and> fits_varchar255 m1 \<and> fits_text c2 \<and> fits_varchar255 m2"
    using fl cc fits by (intro conjI)
  from th2 have "faults s = [] \<and> content_col applied_meta \<noteq> NoColumn \<and> fits_varchar255 f
            \<and> fits_text c1 \<and> fits_varchar255 m1 \<and> fits_text c2 \<and> fits_varchar255 m2 \<longrightarrow>
        (\<exists>s1 s2 t2. UpsertMigration f c1 m1 s = (None, s1)
               \<and> UpsertMigration f c2 m2 s1 = (None, s2)
               \<and> meta (db s2) = Some t2
               \<and> f \<in> set (map mr_filename (meta_rows t2))
               \<and> (\<forall>r \<in> set (meta_rows t2). mr_filename r = f \<longrightarrow>
                     mr_content r = Some c2 \<and> mr_md5 r = m2))"
    by (elim conjE)
  from this pre have "\<exists>s1 s2 t2. UpsertMigration f c1 m1 s = (None, s1)
               \<and> UpsertMigration f c2 m2 s1 = (None, s2)
               \<and> meta (db s2) = Some t2
               \<and> f \<in> set (map mr_filename (meta_rows t2))
               \<and> (\<forall>r \<in> set (meta_rows t2). mr_filename r = f \<longrightarrow>
                     mr_content r = Some c2 \<and> mr_md5 r = m2)"
    by (rule mp)
  then obtain s1 s2 t2 where b: "UpsertMigration f c1 m1 s = (None, s1)"
      "UpsertMigration f c2 m2 s1 = (None, s2)" "meta (db s2) = Some t2"
      "f \<in> set (map mr_filename (meta_rows t2))"
      "\<forall>r \<in> set (meta_rows t2). mr_filename r = f \<longrightarrow> mr_content r = Some c2 \<and> mr_md5 r = m2"
    by blast
  from th2 have "\<forall>s'. UpsertMigration f c1 m1 s = (None, s')
        \<and> f \<in> set (map mr_filename (meta_rows applied_meta)) \<longrightarrow>
      meta (db s') = Some (applied_meta\<lparr>meta_rows :=
             map (\<lambda>r. if mr_filename r = f then r\<lparr>mr_md5 := m1, mr_content := Some c1\<rparr> else r)
               (meta_rows applied_meta)\<rparr>)"
    by (elim conjE)
  with b(1) fm have c: "meta (db s1) = Some (applied_meta\<lparr>meta_rows :=
             map (\<lambda>r. if mr_filename r = f then r\<lparr>mr_md5 := m1, mr_content := Some c1\<rparr> else r)
               (meta_rows applied_meta)\<rparr>)"
    by blast
  from s' a b c have "(\<exists>s'. UpsertMigration z zc zm s = (None, s')
      \<and> meta (db s') = Some (applied_meta\<lparr>meta_rows := meta_rows applied_meta @
             [\<lparr>mr_filename = z, mr_md5 = zm, mr_content = Some zc, mr_createdat = 0\<rparr>]\<rparr>))
   \<and> (\<exists>s1 s2 t2. UpsertMigration f c1 m1 s = (None, s1)
      \<and> meta (db s1) = Some (applied_meta\<lparr>meta_rows :=
             map (\<lambda>r. if mr_filename r = f then r\<lparr>mr_md5 := m1, mr_content := Some c1\<rparr> else r)
               (meta_rows applied_meta)\<rparr>)
      \<and> UpsertMigration f c2 m2 s1 = (None, s2)
      \<and> meta (db s2) = Some t2
      \<and> f \<in> set (map mr_filename (meta_rows t2))
      \<and> (\<forall>r \<in> set (meta_rows t2). mr_filename r = f \<longrightarrow> mr_content r = Some c2 \<and> mr_md5 r = m2))"
    by (intro conjI exI[of _ s'] exI[of _ s1] exI[of _ s2] exI[of _ t2])
  then show ?thesis by (simp only: z_def zc_def zm_def f_def c1_def m1_def c2_def m2_def s_def)
qed

lemma upsert_present:
  assumes "meta d = Some t" and "f \<in> set (map mr_filename (meta_rows t))"
    and "sql_upsert_meta ts f c m um uc d = Inr d'"
  shows "d' = d\<lparr>meta := Some (t\<lparr>meta_rows := map (overwrite f uc um) (meta_rows t)\<rparr>)\<rparr>"
proof (cases "meta_insert_check f c m d")
  case (Inl e)
  with assms(3) show ?thesis by (simp add: sql_upsert_meta_def)
next
  case (Inr t')
  then have tt: "t' = t" using assms(1) by (simp add: meta_insert_check_Inr)
  from assms(2) have ex: "list_ex (\<lambda>r. mr_filename r = f) (meta_rows t)"
    by (auto simp: list_ex_iff)
  have eq: "map (\<lambda>r. if mr_filename r = f then r\<lparr>mr_md5 := um, mr_content := Some uc\<rparr> else r) (meta_rows t)
        = map (overwrite f uc um) (meta_rows t)"
    by (simp add: overwrite_def)
  from assms(3) Inr tt assms(2) ex show ?thesis
    by (simp add: sql_upsert_meta_def Let_def eq split: if_splits)
qed

lemma overwrite_createdat: "mr_createdat (overwrite f c m r) = mr_createdat r"
  by (simp add: overwrite_def)

lemma overwrite_other: "mr_filename r \<noteq> f \<Longrightarrow> overwrite f c m r = r"
  by (simp add: overwrite_def)

text \<open>
  C10: for every row already in the migrations table, whatever \<open>UpsertMigration\<close> with
  that row's filename returns, the table afterwards has the same shape and the same
  number of rows in the same positions; every row keeps its filename and its
  \<open>createdat\<close>; every row with another filename is unchanged altogether (so only md5 and
  content of the matching row can differ); and the other two tables are unchanged.
\<close>
theorem UpsertMigration_changes_only_md5_and_content:
  assumes "meta (db s) = Some t" and "f \<in> set (map mr_filename (meta_rows t))"
    and "UpsertMigration f c m s = (r, s')"
  shows "\<exists>t'. meta (db s') = Some t'
      \<and> md5_index t' = md5_index t \<and> content_col t' = content_col t
      \<and> length (meta_rows t') = length (meta_rows t)
      \<and> (\<forall>i < length (meta_rows t).
            mr_filename (meta_rows t' ! i) = mr_filename (meta_rows t ! i)
          \<and> mr_createdat (meta_rows t' ! i) = mr_createdat (meta_rows t ! i)
          \<and> (mr_filename (meta_rows t ! i) \<noteq> f \<longrightarrow> meta_rows t' ! i = meta_rows t ! i))
      \<and> metaversion (db s') = metaversion (db s)
      \<and> metacheckpoints (db s') = metacheckpoints (db s)"
proof -
  from assms(3) have x: "exec_dml (sql_upsert_meta (now s) f c m m c) s = (r, s')"
    by (simp add: UpsertMigration_def)
  from exec_dml_db[OF x] show ?thesis
  proof
    assume "r \<noteq> None \<and> db s' = db s"
    with assms(1) show ?thesis by simp
  next
    assume "r = None \<and> Inr (db s') = sql_upsert_meta (now s) f c m m c (db s)"
    then have "sql_upsert_meta (now s) f c m m c (db s) = Inr (db s')" by simp
    from upsert_present[OF assms(1,2) this]
    have d: "db s' = (db s)\<lparr>meta := Some (t\<lparr>meta_rows := map (overwrite f c m) (meta_rows t)\<rparr>)\<rparr>" .
    show ?thesis
      by (rule exI[of _ "t\<lparr>meta_rows := map (overwrite f c m) (meta_rows t)\<rparr>"])
         (simp add: d overwrite_filename overwrite_createdat overwrite_other)
  qed
qed













text \<open>Where the name is not plain the server reads more than the digits.\<close>

lemma leading_number_beyond_digits:
  "leading_number ''1e3_a.sql'' = 1000" "sequence_number ''1e3_a.sql'' = 1"
  "leading_number ''-2_b.sql'' = - 2" "sequence_number ''-2_b.sql'' = 0"
  "leading_number ''1.5_c.sql'' = 3 / 2" "sequence_number ''1.5_c.sql'' = 1"
  by (simp_all add: leading_number_def is_blank_def is_digit_def digits_value_def
      sequence_number_def digit_of_def)



lemma applied_meta_rows:
  "length (meta_rows applied_meta) = 2"
  "mr_filename (meta_rows applied_meta ! 0) = ''10_y.sql''"
  "mr_filename (meta_rows applied_meta ! 1) = ''9_x.sql''"
  "mr_createdat (meta_rows applied_meta ! 1) = 2"
  by (simp_all add: applied_meta_def)

theorem UpsertMigration_changes_only_md5_and_content_witness:
  "\<exists>r s' t'. UpsertMigration ''9_x.sql'' ''CREATE TABLE x (id BIGINT)'' ''c20a'' (connect applied_db) = (r, s')
      \<and> meta (db s') = Some t'
      \<and> length (meta_rows t') = 2
      \<and> meta_rows t' ! 0 = meta_rows applied_meta ! 0
      \<and> mr_filename (meta_rows t' ! 1) = ''9_x.sql''
      \<and> mr_createdat (meta_rows t' ! 1) = 2
      \<and> metaversion (db s') = Some [1]
      \<and> metacheckpoints (db s') = Some applied_checkpoints"
proof -
  define f where "f = ''9_x.sql''"
  define c where "c = ''CREATE TABLE x (id BIGINT)''"
  define m where "m = ''c20a''"
  define s where "s = connect applied_db"
  have mt: "meta (db s) = Some applied_meta" by (simp add: s_def connect_fields applied_db_tables)
  have ot: "metaversion (db s) = Some [1]" "metacheckpoints (db s) = Some applied_checkpoints"
    by (simp_all add: s_def connect_fields applied_db_tables)
  have fm: "f \<in> set (map mr_filename (meta_rows applied_meta))"
    by (simp only: applied_meta_shape f_def) simp
  have r0: "mr_filename (meta_rows applied_meta ! 0) \<noteq> f"
    by (simp only: applied_meta_rows f_def) simp
  have r1: "mr_filename (meta_rows applied_meta ! 1) = f"
    by (simp only: applied_meta_rows f_def)
  obtain r s' where u: "UpsertMigration f c m s = (r, s')" by (cases "UpsertMigration f c m s")
  from UpsertMigration_changes_only_md5_and_content[OF mt fm u]
  obtain t' where t': "meta (db s') = Some t'"
      "length (meta_rows t') = length (meta_rows applied_meta)"
      "\<forall>i < length (meta_rows applied_meta).
            mr_filename (meta_rows t' ! i) = mr_filename (meta_rows applied_meta ! i)
          \<and> mr_createdat (meta_rows t' ! i) = mr_createdat (meta_rows applied_meta ! i)
          \<and> (mr_filename (meta_rows applied_meta ! i) \<noteq> f \<longrightarrow> meta_rows t' ! i = meta_rows applied_meta ! i)"
      "metaversion (db s') = metaversion (db s)"
      "metacheckpoints (db s') = metacheckpoints (db s)"
    by blast
  have i0: "(0::nat) < length (meta_rows applied_meta)" and i1: "(1::nat) < length (meta_rows applied_meta)"
    by (simp_all add: applied_meta_rows)
  from t'(3) i0 r0 have a0: "meta_rows t' ! 0 = meta_rows applied_meta ! 0" by blast
  from t'(3) i1 have a1: "mr_filename (meta_rows t' ! 1) = mr_filename (meta_rows applied_meta ! 1)"
      "mr_createdat (meta_rows t' ! 1) = mr_createdat (meta_rows applied_meta ! 1)" by blast+
  have l2: "length (meta_rows t') = 2" using t'(2) by (simp only: applied_meta_rows)
  have f1: "mr_filename (meta_rows t' ! 1) = f" using a1(1) r1 by (rule trans)
  have c1: "mr_createdat (meta_rows t' ! 1) = 2" using a1(2) applied_meta_rows(4) by (rule trans)
  have v: "metaversion (db s') = Some [1]" using t'(4) ot(1) by (rule trans)
  have k: "metacheckpoints (db s') = Some applied_checkpoints" using t'(5) ot(2) by (rule trans)
  have "UpsertMigration f c m s = (r, s')
      \<and> meta (db s') = Some t'
      \<and> length (meta_rows t') = 2
      \<and> meta_rows t' ! 0 = meta_rows applied_meta ! 0
      \<and> mr_filename (meta_rows t' ! 1) = f
      \<and> mr_createdat (meta_rows t' ! 1) = 2
      \<and> metaversion (db s') = Some [1]
      \<and> metacheckpoints (db s') = Some applied_checkpoints"
    using u t'(1) l2 a0 f1 c1 v k by (intro conjI)
  then have "\<exists>r s' t'. UpsertMigration f c m s = (r, s')
      \<and> meta (db s') = Some t'
      \<and> length (meta_rows t') = 2
      \<and> meta_rows t' ! 0 = meta_rows applied_meta ! 0
      \<and> mr_filename (meta_rows t' ! 1) = f
      \<and> mr_createdat (meta_rows t' ! 1) = 2
      \<and> metaversion (db s') = Some [1]
      \<and> metacheckpoints (db s') = Some applied_checkpoints"
    by (intro exI[of _ r] exI[of _ s'] exI[of _ t'])
  then show ?thesis by (simp only: f_def c_def m_def s_def)
qed






section \<open>Properties of the upgrade\<close>

lemma legacy_db_tables:
  "metaversion legacy_db = Some [0]"
  "meta legacy_db = Some legacy_meta"
  "metacheckpoints legacy_db = Some \<lparr>cp_has_content = True, cp_rows = []\<rparr>"
  by (simp_all add: legacy_db_def)

text \<open>The migrations table of the example, part of the way through the upgrade.\<close>

lemma upgrade_example_steps:
  "sql_drop_md5_index legacy_db = Inr (legacy_db\<lparr>meta := Some (legacy_meta\<lparr>md5_index := False\<rparr>)\<rparr>)"
  "sql_add_content_column (legacy_db\<lparr>meta := Some (legacy_meta\<lparr>md5_index := False\<rparr>)\<rparr>) =
     Inr (legacy_db\<lparr>meta := Some (legacy_meta\<lparr>md5_index := False, content_col := Nullable\<rparr>)\<rparr>)"
  by (simp_all add: sql_drop_md5_index_def sql_add_content_column_def legacy_db_def legacy_meta_def)

text \<open>
  C1 says that when a step of \<open>UpgradeToV1\<close> fails, the transaction is rolled back
  and the schema and all rows are as they were before the call. \<open>UpgradeToV1\<close> does
  call \<open>Rollback\<close> on every error, but its first statement is an \<open>ALTER TABLE\<close>, which
  ends the transaction, so there is nothing left to roll back. Here the caller supplies
  one of the two applied migrations; the second row keeps a NULL content and
  \<open>MODIFY COLUMN content TEXT NOT NULL\<close> fails. The call returns that error, and the
  database it leaves has lost the md5 index, gained a nullable \<open>content\<close> column and
  has the first row backfilled: a partial upgrade.
\<close>

theorem UpgradeToV1_failure_is_not_rolled_back:
  "UpgradeToV1 [init_sql] (connect legacy_db) =
     (Some (Wrap invalid_use_of_null ''update meta content not null''),
      connect (legacy_db\<lparr>meta := Some
        \<lparr>md5_index = False, content_col = Nullable,
         meta_rows =
           [\<lparr>mr_filename = ''1_init.sql'', mr_md5 = ''c4ca'',
              mr_content = Some ''CREATE TABLE a (id INT)'', mr_createdat = 1\<rparr>,
            \<lparr>mr_filename = ''2_users.sql'', mr_md5 = ''c81e'',
              mr_content = None, mr_createdat = 2\<rparr>]\<rparr>\<rparr>))
   \<and> meta legacy_db = Some
        \<lparr>md5_index = True, content_col = NoColumn,
         meta_rows =
           [\<lparr>mr_filename = ''1_init.sql'', mr_md5 = ''c4ca'', mr_content = None, mr_createdat = 1\<rparr>,
            \<lparr>mr_filename = ''2_users.sql'', mr_md5 = ''c81e'', mr_content = None, mr_createdat = 2\<rparr>]\<rparr>"
  by (simp add: UpgradeToV1_def upgrade_steps_def Beginx_def Rollback_def exec_ddl_def exec_dml_def
      next_fault_def connect_def legacy_db_def legacy_meta_def init_sql_def sql_drop_md5_index_def
      sql_add_content_column_def sql_update_meta_content_def sql_modify_content_not_null_def
      fits_text_def)

text \<open>The same with both migrations supplied and the connection failing at the second
  \<open>UPDATE\<close> (the fifth call to the server).\<close>

lemma UpgradeToV1_lost_connection_is_not_rolled_back:
  "UpgradeToV1 [init_sql, users_sql]
      ((connect legacy_db)\<lparr>faults := [None, None, None, None, Some ''invalid connection'']\<rparr>) =
     (Some (Wrap (OtherError ''invalid connection'') ''update meta content''),
      connect (legacy_db\<lparr>meta := Some
        \<lparr>md5_index = False, content_col = Nullable,
         meta_rows =
           [\<lparr>mr_filename = ''1_init.sql'', mr_md5 = ''c4ca'',
              mr_content = Some ''CREATE TABLE a (id INT)'', mr_createdat = 1\<rparr>,
            \<lparr>mr_filename = ''2_users.sql'', mr_md5 = ''c81e'',
              mr_content = None, mr_createdat = 2\<rparr>]\<rparr>\<rparr>))"
  by (simp add: UpgradeToV1_def upgrade_steps_def Beginx_def Rollback_def exec_ddl_def exec_dml_def
      next_fault_def connect_def legacy_db_def legacy_meta_def init_sql_def users_sql_def
      sql_drop_md5_index_def sql_add_content_column_def sql_update_meta_content_def fits_text_def)

lemma nat_dec_1060: "nat_dec 1060 = ''1060''"
  by code_simp

lemma duplicate_column_recognised:
  "str_contains (error_text NumberOnly (duplicate_column ''content'')) ''Duplicate column name''"
  "str_contains (error_text NumberAndState (duplicate_column ''content'')) ''Duplicate column name''"
  by (simp_all add: duplicate_column_def nat_dec_1060 sqlstate_def)

lemma exec_dml_delete_version:
  "exec_dml sql_delete_metaversion s = (None, s1) \<Longrightarrow> metaversion (db s1) = Some []"
  using exec_dml_db[of sql_delete_metaversion s None s1]
  by (auto simp: sql_delete_metaversion_def split: option.splits)

lemma upgrade_steps_success:
  "upgrade_steps ms s = (None, s') \<Longrightarrow>
     \<exists>s6 s7. exec_dml sql_delete_metaversion s6 = (None, s7)
        \<and> exec_dml (sql_insert_version 1) s7 = (None, s')"
  unfolding upgrade_steps_def
  by (simp split: prod.splits option.splits if_splits) blast+

lemma Commit_db: "Commit s = (r, s') \<Longrightarrow> db s' = db s"
  by (auto simp: Commit_def split: prod.splits option.splits dest: next_fault_db)

text \<open>The part of C1 that holds: after a call that returns no error, the version table
  holds the single value 1.\<close>

lemma UpgradeToV1_success_version:
  assumes "UpgradeToV1 ms s = (None, s')"
  shows "metaversion (db s') = Some [1]"
proof -
  from assms obtain s0 s1 where st: "upgrade_steps ms s0 = (None, s1)" and c: "Commit s1 = (None, s')"
    by (auto simp: UpgradeToV1_def split: prod.splits option.splits)
  from upgrade_steps_success[OF st] obtain s6 s7 where
    d: "exec_dml sql_delete_metaversion s6 = (None, s7)" and i: "exec_dml (sql_insert_version 1) s7 = (None, s1)"
    by blast
  from exec_dml_delete_version[OF d] exec_dml_insert_version[OF i]
  have "metaversion (db s1) = Some [1]" by auto
  with Commit_db[OF c] show ?thesis by simp
qed


lemma keeps_add_content:
  "index_dropped d \<Longrightarrow> sql_add_content_column d = Inr d' \<Longrightarrow> index_dropped d'"
  by (auto simp: index_dropped_def sql_add_content_column_def split: option.splits if_splits)

lemma keeps_update_content:
  "index_dropped d \<Longrightarrow> sql_update_meta_content c f d = Inr d' \<Longrightarrow> index_dropped d'"
  by (auto simp: index_dropped_def sql_update_meta_content_def split: option.splits if_splits)

lemma keeps_modify_not_null:
  "index_dropped d \<Longrightarrow> sql_modify_content_not_null d = Inr d' \<Longrightarrow> index_dropped d'"
  by (auto simp: index_dropped_def sql_modify_content_not_null_def split: option.splits if_splits)

lemma keeps_add_checkpoints_content:
  "index_dropped d \<Longrightarrow> sql_add_checkpoints_content d = Inr d' \<Longrightarrow> index_dropped d'"
  by (auto simp: index_dropped_def sql_add_checkpoints_content_def split: option.splits if_splits)

lemma keeps_create_metaversion:
  "index_dropped d \<Longrightarrow> sql_create_metaversion_if_not_exists d = Inr d' \<Longrightarrow> index_dropped d'"
  by (auto simp: index_dropped_def sql_create_metaversion_if_not_exists_def split: option.splits if_splits)

lemma keeps_delete_metaversion:
  "index_dropped d \<Longrightarrow> sql_delete_metaversion d = Inr d' \<Longrightarrow> index_dropped d'"
  by (auto simp: index_dropped_def sql_delete_metaversion_def split: option.splits if_splits)

lemma keeps_insert_version:
  "index_dropped d \<Longrightarrow> sql_insert_version v d = Inr d' \<Longrightarrow> index_dropped d'"
  by (auto simp: index_dropped_def sql_insert_version_def split: option.splits if_splits)

lemma exec_ddl_settled:
  assumes "\<And>d d'. index_dropped d \<Longrightarrow> q d = Inr d' \<Longrightarrow> index_dropped d'"
    and "settled s" and "exec_ddl q s = (r, s1)"
  shows "settled s1"
proof (cases "next_fault s")
  case (Pair fl s0)
  from next_fault_db[OF Pair] assms(2) have s0: "settled s0" by (simp add: settled_def)
  show ?thesis
  proof (cases fl)
    case (Some e)
    with Pair assms(3) s0 show ?thesis by (simp add: exec_ddl_def)
  next
    case None
    show ?thesis
    proof (cases "q (db s0)")
      case (Inl e)
      with None Pair assms(3) s0 show ?thesis by (auto simp: exec_ddl_def settled_def)
    next
      case (Inr d)
      from s0 have "index_dropped (db s0)" by (simp add: settled_def)
      from assms(1)[OF this Inr] have "index_dropped d" .
      with Inr None Pair assms(3) show ?thesis by (auto simp: exec_ddl_def settled_def)
    qed
  qed
qed

lemma exec_dml_settled:
  assumes "\<And>d d'. index_dropped d \<Longrightarrow> q d = Inr d' \<Longrightarrow> index_dropped d'"
    and "settled s" and "exec_dml q s = (r, s1)"
  shows "settled s1"
proof (cases "next_fault s")
  case (Pair fl s0)
  from next_fault_db[OF Pair] assms(2) have s0: "settled s0" by (simp add: settled_def)
  show ?thesis
  proof (cases fl)
    case (Some e)
    with Pair assms(3) s0 show ?thesis by (simp add: exec_dml_def)
  next
    case None
    show ?thesis
    proof (cases "q (db s0)")
      case (Inl e)
      with None Pair assms(3) s0 show ?thesis by (auto simp: exec_dml_def settled_def)
    next
      case (Inr d)
      from s0 have "index_dropped (db s0)" by (simp add: settled_def)
      from assms(1)[OF this Inr] have "index_dropped d" .
      with Inr None Pair assms(3) s0 show ?thesis by (auto simp: exec_dml_def settled_def)
    qed
  qed
qed

lemma backfill_settled:
  "settled s \<Longrightarrow> backfill ms s = (r, s1) \<Longrightarrow> settled s1"
proof (induction ms arbitrary: s)
  case Nil
  then show ?case by simp
next
  case (Cons m ms)
  obtain r0 s0 where x: "exec_dml (sql_update_meta_content (Content m) (Filename m)) s = (r0, s0)"
    by (cases "exec_dml (sql_update_meta_content (Content m) (Filename m)) s")
  from exec_dml_settled[OF keeps_update_content Cons.prems(1) x] have s0: "settled s0" .
  show ?case
  proof (cases r0)
    case None
    with x Cons.prems(2) have "backfill ms s0 = (r, s1)" by simp
    from Cons.IH[OF s0 this] show ?thesis .
  next
    case (Some e)
    with x Cons.prems(2) s0 show ?thesis by simp
  qed
qed

lemma drop_index_settles:
  assumes "exec_ddl sql_drop_md5_index s = (None, s1)"
  shows "settled s1"
proof -
  from assms have "rollback_to s1 = None"
    by (auto simp: exec_ddl_def split: prod.splits option.splits sum.splits)
  moreover from exec_ddl_db[OF assms] have "Inr (db s1) = sql_drop_md5_index (db s)" by simp
  then have "index_dropped (db s1)"
    by (auto simp: sql_drop_md5_index_def index_dropped_def split: option.splits if_splits)
  ultimately show ?thesis by (simp add: settled_def)
qed

text \<open>After the first statement of the upgrade, whatever the others do, the index stays
  dropped and no transaction is open.\<close>

lemma upgrade_steps_settled:
  assumes "upgrade_steps ms s = (r, s')" and "exec_ddl sql_drop_md5_index s = (None, s1)"
  shows "settled s'"
proof -
  from drop_index_settles[OF assms(2)] have t1: "settled s1" .
  obtain r2 s2 where x2: "exec_ddl sql_add_content_column s1 = (r2, s2)"
    by (cases "exec_ddl sql_add_content_column s1")
  from exec_ddl_settled[OF keeps_add_content t1 x2] have t2: "settled s2" .
  obtain r3 s3 where x3: "backfill ms s2 = (r3, s3)"
    by (cases "backfill ms s2")
  from backfill_settled[OF t2 x3] have t3: "settled s3" .
  obtain r4 s4 where x4: "exec_ddl sql_modify_content_not_null s3 = (r4, s4)"
    by (cases "exec_ddl sql_modify_content_not_null s3")
  from exec_ddl_settled[OF keeps_modify_not_null t3 x4] have t4: "settled s4" .
  obtain r5 s5 where x5: "exec_ddl sql_add_checkpoints_content s4 = (r5, s5)"
    by (cases "exec_ddl sql_add_checkpoints_content s4")
  from exec_ddl_settled[OF keeps_add_checkpoints_content t4 x5] have t5: "settled s5" .
  obtain r6 s6 where x6: "exec_ddl sql_create_metaversion_if_not_exists s5 = (r6, s6)"
    by (cases "exec_ddl sql_create_metaversion_if_not_exists s5")
  from exec_ddl_settled[OF keeps_create_metaversion t5 x6] have t6: "settled s6" .
  obtain r7 s7 where x7: "exec_dml sql_delete_metaversion s6 = (r7, s7)"
    by (cases "exec_dml sql_delete_metaversion s6")
  from exec_dml_settled[OF keeps_delete_metaversion t6 x7] have t7: "settled s7" .
  obtain r8 s8 where x8: "exec_dml (sql_insert_version 1) s7 = (r8, s8)"
    by (cases "exec_dml (sql_insert_version 1) s7")
  from exec_dml_settled[OF keeps_insert_version t7 x8] have t8: "settled s8" .
  have "s' = s2 \<or> s' = s3 \<or> s' = s4 \<or> s' = s5 \<or> s' = s6 \<or> s' = s7 \<or> s' = s8"
    using assms x2 x3 x4 x5 x6 x7 x8 unfolding upgrade_steps_def
    by (simp split: option.splits if_splits)
  with t2 t3 t4 t5 t6 t7 t8 show ?thesis by blast
qed

lemma Rollback_settled: "settled s \<Longrightarrow> Rollback s = (r, s') \<Longrightarrow> db s' = db s"
  by (auto simp: Rollback_def settled_def split: prod.splits option.splits dest: next_fault_db)

text \<open>
  On a legacy table, with no failure from outside, every run of the upgrade that returns
  an error leaves the index dropped: the database is not what it was before the call.
\<close>

lemma UpgradeToV1_error_leaves_index_dropped:
  assumes "faults s = []" and "meta (db s) = Some t" and "md5_index t"
    and "UpgradeToV1 ms s = (Some e, s')"
  shows "index_dropped (db s') \<and> db s' \<noteq> db s"
proof -
  define s0 where "s0 = s\<lparr>rollback_to := Some (db s)\<rparr>"
  define s1 where "s1 = s0\<lparr>db := (db s)\<lparr>meta := Some (t\<lparr>md5_index := False\<rparr>)\<rparr>, rollback_to := None\<rparr>"
  have bg: "Beginx s = (None, s0)" using assms(1) by (simp add: Beginx_def next_fault_none s0_def)
  have f0: "faults s0 = []" using assms(1) by (simp add: s0_def)
  have d0: "sql_drop_md5_index (db s0) = Inr ((db s)\<lparr>meta := Some (t\<lparr>md5_index := False\<rparr>)\<rparr>)"
    using assms(2,3) by (simp add: sql_drop_md5_index_def s0_def)
  have dr: "exec_ddl sql_drop_md5_index s0 = (None, s1)"
    by (simp add: exec_ddl_run[OF f0] d0 s1_def)
  obtain r2 s2 where st: "upgrade_steps ms s0 = (r2, s2)" by (cases "upgrade_steps ms s0")
  from upgrade_steps_settled[OF st dr] have set2: "settled s2" .
  have "index_dropped (db s')"
  proof (cases r2)
    case None
    with assms(4) bg st have "Commit s2 = (Some e, s')" by (simp add: UpgradeToV1_def)
    from Commit_db[OF this] set2 show ?thesis by (simp add: settled_def)
  next
    case (Some e2)
    obtain r3 s3 where rb: "Rollback s2 = (r3, s3)" by (cases "Rollback s2")
    with Some assms(4) bg st have "s' = s3" by (simp add: UpgradeToV1_def)
    with Rollback_settled[OF set2 rb] set2 show ?thesis by (simp add: settled_def)
  qed
  moreover have "\<not> index_dropped (db s)" using assms(2,3) by (simp add: index_dropped_def)
  ultimately show ?thesis by auto
qed

end
